theory Spec2Isabelle
  imports Complex_Main "HOL-Library.Word"
begin

unbundle bit_operations_syntax

section \<open>Errors and raw data\<close>

text \<open>
  Exceptions of the program and of the platform calls it makes are values. \<open>Error\<close> is
  JavaScript's \<open>new Error(message)\<close>; the others are the platform's own exceptions
  (typed-array construction, Web Audio, base64, a property read on \<open>undefined\<close> or
  \<open>null\<close>).
\<close>

datatype js_error =
  Error string | RangeError | NotSupportedError | InvalidCharacterError | TypeError

type_synonym byte = "8 word"
type_synonym int16 = "16 word"

text \<open>
  A Float32Array element is modelled as a real number: every finite float32 is one, and
  the arithmetic the codec does on samples (a product with \<open>2^15\<close>, a quotient by
  \<open>2^15\<close> of a 16-bit integer) is exact in IEEE double and single precision. NaN and the
  infinities are outside the model.
\<close>

type_synonym sample = real

section \<open>The platform's base64 (\<open>btoa\<close>, \<open>atob\<close>)\<close>

text \<open>
  A JavaScript "binary string" holds one code unit in \<open>0..255\<close> per byte; it is a
  \<open>string\<close> here (a \<open>char\<close> is eight bits). \<open>String.fromCharCode\<close> and
  \<open>charCodeAt\<close> convert between a byte and such a code unit.
\<close>

definition fromCharCode :: "byte \<Rightarrow> char" where
  "fromCharCode b = char_of (unat b)"

definition charCodeAt :: "char \<Rightarrow> byte" where
  "charCodeAt c = of_nat (of_char c)"

definition b64alphabet :: string where
  "b64alphabet = ''ABCDEFGHIJKLMNOPQRSTUVWXYZabcdefghijklmnopqrstuvwxyz0123456789+/''"

definition b64char :: "nat \<Rightarrow> char" where
  "b64char n = b64alphabet ! n"

fun index_of :: "'a \<Rightarrow> 'a list \<Rightarrow> nat option" where
  "index_of x [] = None"
| "index_of x (y # ys) =
     (if x = y then Some 0 else map_option Suc (index_of x ys))"

definition b64index :: "char \<Rightarrow> nat option" where
  "b64index c = index_of c b64alphabet"

text \<open>
  \<open>btoa\<close>: three code units become four alphabet characters, the last group is padded
  with \<open>=\<close>. (The platform raises InvalidCharacterError on a code unit above 255; the
  type of a binary string excludes that here.)
\<close>

fun btoa_groups :: "nat list \<Rightarrow> string" where
  "btoa_groups (a # b # c # rest) =
     [b64char (a div 4), b64char ((a mod 4) * 16 + b div 16),
      b64char ((b mod 16) * 4 + c div 64), b64char (c mod 64)] @ btoa_groups rest"
| "btoa_groups [a, b] =
     [b64char (a div 4), b64char ((a mod 4) * 16 + b div 16),
      b64char ((b mod 16) * 4), CHR ''='']"
| "btoa_groups [a] =
     [b64char (a div 4), b64char ((a mod 4) * 16), CHR ''='', CHR ''='']"
| "btoa_groups [] = []"

definition btoa :: "string \<Rightarrow> string" where
  "btoa s = btoa_groups (map of_char s)"

text \<open>
  \<open>atob\<close> is the platform's forgiving base64 decoder: ASCII whitespace is removed; when
  the length is a multiple of four, one or two trailing \<open>=\<close> are removed; a length of
  one modulo four, or a character outside the alphabet, raises; four characters become three
  bytes, and the spare bits of a final group of two or three characters are dropped.
\<close>

definition isAsciiWhitespace :: "char \<Rightarrow> bool" where
  "isAsciiWhitespace c = (of_char c \<in> {9, 10, 12, 13, 32 :: nat})"

definition endsWith :: "string \<Rightarrow> string \<Rightarrow> bool" where
  "endsWith s suffix =
     (length suffix \<le> length s \<and> drop (length s - length suffix) s = suffix)"

definition stripPadding :: "string \<Rightarrow> string" where
  "stripPadding d =
     (if length d mod 4 = 0 then
        (if endsWith d ''=='' then take (length d - 2) d
         else if endsWith d ''='' then take (length d - 1) d
         else d)
      else d)"

fun atob_groups :: "nat list \<Rightarrow> nat list" where
  "atob_groups (p # q # r # s # rest) =
     [p * 4 + q div 16, (q mod 16) * 16 + r div 4, (r mod 4) * 64 + s] @ atob_groups rest"
| "atob_groups [p, q, r] = [p * 4 + q div 16, (q mod 16) * 16 + r div 4]"
| "atob_groups [p, q] = [p * 4 + q div 16]"
| "atob_groups [p] = []"
| "atob_groups [] = []"

definition atob :: "string \<Rightarrow> js_error + string" where
  "atob s =
     (let d = stripPadding (filter (\<lambda>c. \<not> isAsciiWhitespace c) s) in
      if length d mod 4 = 1 then Inl InvalidCharacterError
      else case those (map b64index d) of
             None \<Rightarrow> Inl InvalidCharacterError
           | Some sextets \<Rightarrow> Inr (map char_of (atob_groups sextets)))"

section \<open>PCM codec (services/geminiService)\<close>

text \<open>
  The constants of \<open>constants.ts\<close> are not among the sources; the functions that read
  them take them as a parameter.
\<close>

record live_constants =
  LIVE_API_INPUT_SAMPLE_RATE :: nat
  LIVE_API_OUTPUT_SAMPLE_RATE :: nat
  LIVE_API_AUDIO_CHANNELS :: nat
  LIVE_API_SCRIPT_PROCESSOR_BUFFER_SIZE :: nat

record CustomBlob =
  data :: string
  mimeType :: string

text \<open>
  An AudioContext, as far as the program uses it: its identity, and the limits its
  \<open>createBuffer\<close> enforces (Web Audio leaves them to the implementation, above a minimum).
  An AudioBuffer is its channel data with the length and rate it was created with.
\<close>

record audio_context =
  ctxId :: nat
  maxChannels :: nat
  minSampleRate :: nat
  maxSampleRate :: nat

record audio_buffer =
  numberOfChannels :: nat
  frameLength :: nat
  sampleRate :: nat
  channelData :: "sample list list"

definition duration :: "audio_buffer \<Rightarrow> real" where
  "duration b = real (frameLength b) / real (sampleRate b)"

text \<open>
  \<open>createBuffer(numberOfChannels, length, sampleRate)\<close> of the Web Audio API raises
  NotSupportedError when an argument is zero or outside the context's limits; otherwise the
  buffer holds silence.
\<close>

definition createBuffer :: "audio_context \<Rightarrow> nat \<Rightarrow> nat \<Rightarrow> nat \<Rightarrow> js_error + audio_buffer" where
  "createBuffer ctx numChannels frameCount rate =
     (if numChannels = 0 \<or> maxChannels ctx < numChannels \<or> frameCount = 0
         \<or> rate = 0 \<or> rate < minSampleRate ctx \<or> maxSampleRate ctx < rate
      then Inl NotSupportedError
      else Inr \<lparr>numberOfChannels = numChannels, frameLength = frameCount, sampleRate = rate,
                channelData = replicate numChannels (replicate frameCount 0)\<rparr>)"

text \<open>
  Typed-array views of one ArrayBuffer. \<open>new Uint8Array(int16.buffer)\<close> lists the bytes
  of each 16-bit element, low byte first (the byte order of every platform the program runs
  on); \<open>new Int16Array(bytes.buffer)\<close> reads them back and raises RangeError on an odd
  byte length.
\<close>

definition uint8View :: "int16 list \<Rightarrow> byte list" where
  "uint8View ws = concat (map (\<lambda>w. [ucast w, ucast (drop_bit 8 w)]) ws)"

fun int16Pairs :: "byte list \<Rightarrow> int16 list" where
  "int16Pairs (lo # hi # rest) = (push_bit 8 (ucast hi) OR ucast lo) # int16Pairs rest"
| "int16Pairs _ = []"

definition int16View :: "byte list \<Rightarrow> js_error + int16 list" where
  "int16View bs = (if odd (length bs) then Inl RangeError else Inr (int16Pairs bs))"

text \<open>
  Storing a number into an Int16Array element (ECMAScript ToInt16): the fraction is cut
  off towards zero and the integer is taken modulo \<open>2^16\<close>; reading the element gives
  \<open>sint\<close> of the word.
\<close>

definition trunc :: "real \<Rightarrow> int" where
  "trunc x = (if 0 \<le> x then \<lfloor>x\<rfloor> else \<lceil>x\<rceil>)"

definition toInt16 :: "real \<Rightarrow> int16" where
  "toInt16 x = word_of_int (trunc x)"

definition decode :: "string \<Rightarrow> js_error + byte list" where
  "decode base64 =
     (case atob base64 of
        Inl e \<Rightarrow> Inl e
      | Inr binaryString \<Rightarrow> Inr (map charCodeAt binaryString))"

text \<open>
  \<open>decodeAudioData\<close>. The quotient \<open>dataInt16.length / numChannels\<close> is passed to
  \<open>createBuffer\<close>, which takes its integer part; the loops fill that many frames of every
  channel (a write past the end of a channel's array has no effect), each frame read at an
  index within \<open>dataInt16\<close>.
\<close>

definition decodeAudioData ::
  "byte list \<Rightarrow> audio_context \<Rightarrow> nat \<Rightarrow> nat \<Rightarrow> js_error + audio_buffer" where
  "decodeAudioData bytes ctx rate numChannels =
     (case int16View bytes of
        Inl e \<Rightarrow> Inl e
      | Inr dataInt16 \<Rightarrow>
          (let frameCount = length dataInt16 div numChannels in
           case createBuffer ctx numChannels frameCount rate of
             Inl e \<Rightarrow> Inl e
           | Inr buffer \<Rightarrow>
               Inr (buffer\<lparr>channelData :=
                      map (\<lambda>channel.
                             map (\<lambda>i. real_of_int (sint (dataInt16 ! (i * numChannels + channel)))
                                        / 32768)
                                 [0..<frameCount])
                          [0..<numChannels]\<rparr>)))"

definition encode :: "byte list \<Rightarrow> string" where
  "encode bytes = btoa (map fromCharCode bytes)"

fun numberToString :: "nat \<Rightarrow> string" where
  "numberToString n =
     (if n < 10 then [char_of (48 + n)]
      else numberToString (n div 10) @ [char_of (48 + n mod 10)])"

definition createPcmBlob :: "live_constants \<Rightarrow> sample list \<Rightarrow> CustomBlob" where
  "createPcmBlob k samples =
     (let int16 = map (\<lambda>x. toInt16 (x * 32768)) samples in
      \<lparr>data = encode (uint8View int16),
       mimeType = ''audio/pcm;rate='' @ numberToString (LIVE_API_INPUT_SAMPLE_RATE k)\<rparr>)"

section \<open>Loading context (contexts/LoadingContext)\<close>

definition incrementLoading :: "int \<Rightarrow> int" where
  "incrementLoading prev = prev + 1"

definition decrementLoading :: "int \<Rightarrow> int" where
  "decrementLoading prev = max 0 (prev - 1)"

definition isLoading :: "int \<Rightarrow> bool" where
  "isLoading activeRequests = (activeRequests > 0)"

datatype loading_call = IncrementLoading | DecrementLoading

fun loadingCall :: "loading_call \<Rightarrow> int \<Rightarrow> int" where
  "loadingCall IncrementLoading n = incrementLoading n"
| "loadingCall DecrementLoading n = decrementLoading n"

fun loadingCalls :: "loading_call list \<Rightarrow> int \<Rightarrow> int" where
  "loadingCalls [] n = n"
| "loadingCalls (c # cs) n = loadingCalls cs (loadingCall c n)"

section \<open>Live conversation (components/LiveConversationFeature)\<close>

datatype ChatMessageType = USER | MODEL | INFO | ERROR

record history_entry =
  entryType :: ChatMessageType
  entryText :: string

text \<open>
  An AudioBufferSourceNode is its identity and the buffer it plays. The calls the
  component makes on objects it does not own (the session, the microphone stream, the
  audio nodes and contexts) are recorded, in order, in the field \<open>effects\<close>.
\<close>

record source_node =
  sourceId :: nat
  sourceBuffer :: audio_buffer

datatype effect =
    SessionClose nat
  | SendRealtimeInput nat CustomBlob
  | WireCapture nat
  | ProcessorDisconnect nat
  | TracksStop nat
  | ContextClose nat
  | SourceStart source_node real
  | SourceStop source_node

text \<open>
  The component's React state (the first six fields), its refs, the loading context's
  counter it updates through \<open>useLoading\<close>, the log of effects, and the supply of
  identities for new source nodes. \<open>sourcesRef\<close> is a JavaScript Set: a list without
  repetition, in insertion order. The state setters a handler calls are applied in the
  order of the calls; a handler is a function from the state before it to the state after
  it. Times (\<open>nextStartTimeRef\<close>, clock readings, durations) are real numbers: the
  doubles of the program taken exactly, the rounding of a sum left out.
\<close>

record live_state =
  isRecording :: bool
  currentInputTranscription :: string
  currentOutputTranscription :: string
  transcriptionHistory :: "history_entry list"
  statusMessage :: string
  error :: "string option"
  sessionRef :: "nat option"
  streamRef :: "nat option"
  inputAudioContextRef :: "audio_context option"
  outputAudioContextRef :: "audio_context option"
  scriptProcessorRef :: "nat option"
  nextStartTimeRef :: real
  sourcesRef :: "source_node list"
  activeRequests :: int
  effects :: "effect list"
  nextSourceId :: nat

definition initialState :: live_state where
  "initialState =
     \<lparr>isRecording = False, currentInputTranscription = [], currentOutputTranscription = [],
      transcriptionHistory = [], statusMessage = ''Click to start conversation'', error = None,
      sessionRef = None, streamRef = None, inputAudioContextRef = None,
      outputAudioContextRef = None, scriptProcessorRef = None, nextStartTimeRef = 0,
      sourcesRef = [], activeRequests = 0, effects = [], nextSourceId = 0\<rparr>"

text \<open>
  \<open>stopRecording(resetError = true)\<close>: every release is guarded by a null check on its
  ref, so the function makes no call on a handle that is already released. The calls
  themselves (\<open>close\<close>, \<open>disconnect\<close>, \<open>stop\<close>) are the platform's and the
  session's; they are recorded and taken to return.
\<close>

definition stopRecording :: "bool \<Rightarrow> live_state \<Rightarrow> live_state" where
  "stopRecording resetError st =
     (let st = st\<lparr>isRecording := False\<rparr>;
          st = (case sessionRef st of
                  Some session \<Rightarrow>
                    st\<lparr>effects := effects st @ [SessionClose session], sessionRef := None\<rparr>
                | None \<Rightarrow> st);
          st = (case scriptProcessorRef st of
                  Some node \<Rightarrow>
                    st\<lparr>effects := effects st @ [ProcessorDisconnect node],
                       scriptProcessorRef := None\<rparr>
                | None \<Rightarrow> st);
          st = (case streamRef st of
                  Some stream \<Rightarrow>
                    st\<lparr>effects := effects st @ [TracksStop stream], streamRef := None\<rparr>
                | None \<Rightarrow> st);
          st = (case inputAudioContextRef st of
                  Some ctx \<Rightarrow>
                    st\<lparr>effects := effects st @ [ContextClose (ctxId ctx)],
                       inputAudioContextRef := None\<rparr>
                | None \<Rightarrow> st);
          st = (case outputAudioContextRef st of
                  Some ctx \<Rightarrow>
                    st\<lparr>effects := effects st @ [ContextClose (ctxId ctx)],
                       outputAudioContextRef := None\<rparr>
                | None \<Rightarrow> st);
          st = st\<lparr>effects := effects st @ map SourceStop (sourcesRef st)\<rparr>;
          st = st\<lparr>sourcesRef := []\<rparr>;
          st = st\<lparr>nextStartTimeRef := 0\<rparr>;
          st = st\<lparr>currentInputTranscription := []\<rparr>;
          st = st\<lparr>currentOutputTranscription := []\<rparr>;
          st = (if resetError then st\<lparr>error := None\<rparr> else st)
      in st\<lparr>statusMessage := ''Conversation ended.''\<rparr>)"

text \<open>The cleanup effect, run when the component unmounts.\<close>

definition cleanup :: "live_state \<Rightarrow> live_state" where
  "cleanup st = stopRecording False st"

text \<open>
  The callbacks handed to the session are created inside one call of
  \<open>startRecording\<close>, and the two transcription state variables they mention are the
  constants of the render that call belongs to. \<open>render_snapshot\<close> is what the
  callbacks have captured; state set later through \<open>setCurrent...Transcription\<close> is not
  visible through those names.
\<close>

record render_snapshot =
  capturedInputTranscription :: string
  capturedOutputTranscription :: string

definition snapshot :: "live_state \<Rightarrow> render_snapshot" where
  "snapshot st =
     \<lparr>capturedInputTranscription = currentInputTranscription st,
      capturedOutputTranscription = currentOutputTranscription st\<rparr>"

text \<open>
  What the environment answers to \<open>startRecording\<close>: the microphone stream
  (\<open>Inl\<close>: the message of the rejection), the input context and processor node it
  creates, and the result of \<open>connectLiveSession\<close> (the session and the output context).
  The function awaits twice; it is one transition here, which returns the callbacks it
  has created (what they captured) with the state. \<open>startFailed\<close> is its
  \<open>catch\<close> block.
\<close>

record start_outcome =
  userMedia :: "string + nat"
  newInputContext :: audio_context
  newScriptProcessor :: nat
  connection :: "string + (nat \<times> audio_context)"

definition startFailed :: "string \<Rightarrow> live_state \<Rightarrow> live_state" where
  "startFailed message st =
     stopRecording False
       (st\<lparr>error := Some (''Failed to start: '' @ message),
           statusMessage := ''Error starting conversation.'',
           activeRequests := decrementLoading (activeRequests st)\<rparr>)"

definition startRecording :: "start_outcome \<Rightarrow> live_state \<Rightarrow> render_snapshot \<times> live_state" where
  "startRecording outcome st =
     (let callbacks = snapshot st;
          st = st\<lparr>error := None, statusMessage := ''Starting...'',
                  activeRequests := incrementLoading (activeRequests st)\<rparr>
      in case userMedia outcome of
           Inl message \<Rightarrow> (callbacks, startFailed message st)
         | Inr stream \<Rightarrow>
             (let st = st\<lparr>streamRef := Some stream,
                          inputAudioContextRef := Some (newInputContext outcome),
                          scriptProcessorRef := Some (newScriptProcessor outcome)\<rparr>
              in case connection outcome of
                   Inl message \<Rightarrow> (callbacks, startFailed message st)
                 | Inr (session, outputAudioContext) \<Rightarrow>
                     (callbacks,
                      st\<lparr>sessionRef := Some session,
                         outputAudioContextRef := Some outputAudioContext\<rparr>)))"

text \<open>
  \<open>onopen\<close>. The state setters run first; installing the capture callback on a
  processor ref that is null raises (the \<open>!\<close> of the source is a compile-time
  assertion only). A handler returns the exception it raised, if any, with the state it
  leaves.
\<close>

definition onopen :: "live_state \<Rightarrow> js_error option \<times> live_state" where
  "onopen st =
     (let st = st\<lparr>statusMessage := ''Recording...'', isRecording := True,
                  activeRequests := decrementLoading (activeRequests st)\<rparr>
      in case scriptProcessorRef st of
           None \<Rightarrow> (Some TypeError, st)
         | Some node \<Rightarrow> (None, st\<lparr>effects := effects st @ [WireCapture node]\<rparr>))"

definition onaudioprocess :: "live_constants \<Rightarrow> sample list \<Rightarrow> live_state \<Rightarrow> live_state" where
  "onaudioprocess k inputData st =
     (let pcmBlob = createPcmBlob k inputData
      in case sessionRef st of
           Some session \<Rightarrow> st\<lparr>effects := effects st @ [SendRealtimeInput session pcmBlob]\<rparr>
         | None \<Rightarrow> st)"

text \<open>
  A server message, as far as \<open>onmessage\<close> reads it (each field is
  \<open>message.serverContent?.field\<close>): a transcription is its text; \<open>modelTurn\<close> is
  the optional list \<open>parts\<close>, each part its optional \<open>inlineData.data\<close>.
\<close>

record server_message =
  outputTranscription :: "string option"
  inputTranscription :: "string option"
  turnComplete :: bool
  modelTurn :: "string option list option option"
  interrupted :: bool

text \<open>
  \<open>message.serverContent?.modelTurn?.parts[0]?.inlineData?.data\<close>: indexing
  \<open>parts\<close> when a model turn has none raises.
\<close>

definition audioData :: "server_message \<Rightarrow> js_error + string option" where
  "audioData m =
     (case modelTurn m of
        None \<Rightarrow> Inr None
      | Some None \<Rightarrow> Inl TypeError
      | Some (Some []) \<Rightarrow> Inr None
      | Some (Some (part # _)) \<Rightarrow> Inr part)"

text \<open>Lines 150 to 154: a partial transcript is appended to the running transcript.\<close>

definition appendTranscription :: "server_message \<Rightarrow> live_state \<Rightarrow> live_state" where
  "appendTranscription m st =
     (case outputTranscription m of
        Some t \<Rightarrow> st\<lparr>currentOutputTranscription := currentOutputTranscription st @ t\<rparr>
      | None \<Rightarrow>
          (case inputTranscription m of
             Some t \<Rightarrow> st\<lparr>currentInputTranscription := currentInputTranscription st @ t\<rparr>
           | None \<Rightarrow> st))"

text \<open>
  Lines 156 to 165: the tests and the committed texts are the captured variables; the
  setters that clear the running transcripts act on the state.
\<close>

definition commitTurn :: "render_snapshot \<Rightarrow> live_state \<Rightarrow> live_state" where
  "commitTurn callbacks st =
     (let st = (if capturedInputTranscription callbacks \<noteq> [] then
                  st\<lparr>transcriptionHistory := transcriptionHistory st @
                       [\<lparr>entryType = USER, entryText = capturedInputTranscription callbacks\<rparr>]\<rparr>
                else st);
          st = (if capturedOutputTranscription callbacks \<noteq> [] then
                  st\<lparr>transcriptionHistory := transcriptionHistory st @
                       [\<lparr>entryType = MODEL, entryText = capturedOutputTranscription callbacks\<rparr>]\<rparr>
                else st)
      in st\<lparr>currentInputTranscription := [], currentOutputTranscription := []\<rparr>)"

text \<open>
  Lines 169 to 172 and 179 to 188: the floor of the next start time is raised to the
  clock, then the new source is started at the floor, the floor advances by the buffer's
  duration, and the source joins the active set. \<open>now\<close> is the reading of
  \<open>outputAudioContextRef.current.currentTime\<close>.
\<close>

definition raiseFloor :: "real \<Rightarrow> live_state \<Rightarrow> live_state" where
  "raiseFloor now st = st\<lparr>nextStartTimeRef := max (nextStartTimeRef st) now\<rparr>"

definition startSource :: "audio_buffer \<Rightarrow> live_state \<Rightarrow> live_state" where
  "startSource audioBuffer st =
     (let source = \<lparr>sourceId = nextSourceId st, sourceBuffer = audioBuffer\<rparr>;
          st = st\<lparr>nextSourceId := nextSourceId st + 1\<rparr>;
          st = st\<lparr>effects := effects st @ [SourceStart source (nextStartTimeRef st)]\<rparr>;
          st = st\<lparr>nextStartTimeRef := nextStartTimeRef st + duration audioBuffer\<rparr>
      in st\<lparr>sourcesRef := sourcesRef st @ [source]\<rparr>)"

definition scheduleNext :: "real \<Rightarrow> audio_buffer \<Rightarrow> live_state \<Rightarrow> live_state" where
  "scheduleNext now audioBuffer st = startSource audioBuffer (raiseFloor now st)"

text \<open>The \<open>ended\<close> listener of a source removes it from the active set.\<close>

definition onended :: "source_node \<Rightarrow> live_state \<Rightarrow> live_state" where
  "onended source st = st\<lparr>sourcesRef := removeAll source (sourcesRef st)\<rparr>"

text \<open>
  Lines 167 to 189. The decoding is awaited between the two halves; the function awaited
  has no suspension point of its own, and the step is one transition here. The start time
  is read from the ref after the await. An exception leaves the floor raised and ends the
  handler.
\<close>

definition playAudio ::
  "live_constants \<Rightarrow> real \<Rightarrow> string option \<Rightarrow> live_state \<Rightarrow> js_error option \<times> live_state" where
  "playAudio k now base64EncodedAudioString st =
     (case (base64EncodedAudioString, outputAudioContextRef st) of
        (Some base64, Some ctx) \<Rightarrow>
          (if base64 = [] then (None, st)
           else
             (let st = raiseFloor now st in
              case decode base64 of
                Inl e \<Rightarrow> (Some e, st)
              | Inr bytes \<Rightarrow>
                  (case decodeAudioData bytes ctx (LIVE_API_OUTPUT_SAMPLE_RATE k)
                          (LIVE_API_AUDIO_CHANNELS k) of
                     Inl e \<Rightarrow> (Some e, st)
                   | Inr audioBuffer \<Rightarrow> (None, startSource audioBuffer st))))
      | _ \<Rightarrow> (None, st))"

text \<open>Lines 191 to 201.\<close>

definition interrupt :: "live_state \<Rightarrow> live_state" where
  "interrupt st =
     (let st = st\<lparr>effects := effects st @ map SourceStop (sourcesRef st)\<rparr>;
          st = st\<lparr>sourcesRef := []\<rparr>;
          st = st\<lparr>nextStartTimeRef := 0\<rparr>
      in st\<lparr>currentInputTranscription := [], currentOutputTranscription := []\<rparr>)"

definition onmessage ::
  "live_constants \<Rightarrow> render_snapshot \<Rightarrow> real \<Rightarrow> server_message \<Rightarrow> live_state
     \<Rightarrow> js_error option \<times> live_state" where
  "onmessage k callbacks now m st =
     (let st = appendTranscription m st;
          st = (if turnComplete m then commitTurn callbacks st else st)
      in case audioData m of
           Inl e \<Rightarrow> (Some e, st)
         | Inr base64EncodedAudioString \<Rightarrow>
             (case playAudio k now base64EncodedAudioString st of
                (Some e, st) \<Rightarrow> (Some e, st)
              | (None, st) \<Rightarrow> (None, if interrupted m then interrupt st else st)))"

text \<open>\<open>onerror(e)\<close> with \<open>e.type\<close>, and \<open>onclose(e)\<close> with \<open>e.code\<close>, \<open>e.reason\<close>.\<close>

definition onerror :: "string \<Rightarrow> live_state \<Rightarrow> live_state" where
  "onerror eventType st =
     (let st = st\<lparr>error := Some (''Live Session error: '' @ eventType)\<rparr>;
          st = st\<lparr>statusMessage := ''Error occurred.''\<rparr>;
          st = st\<lparr>activeRequests := decrementLoading (activeRequests st)\<rparr>
      in stopRecording True st)"

definition onclose :: "nat \<Rightarrow> string \<Rightarrow> live_state \<Rightarrow> live_state" where
  "onclose code reason st =
     (let st = (if code \<noteq> 1000 then
                  st\<lparr>error := Some (''Live Session closed unexpectedly: '' @ numberToString code
                                     @ '' - '' @ reason),
                     statusMessage := ''Session closed due to error.''\<rparr>
                else st\<lparr>statusMessage := ''Conversation ended.''\<rparr>)
      in stopRecording False st)"

text \<open>Messages that carry one event each.\<close>

definition emptyMessage :: server_message where
  "emptyMessage =
     \<lparr>outputTranscription = None, inputTranscription = None, turnComplete = False,
      modelTurn = None, interrupted = False\<rparr>"

definition turnCompleteMessage :: server_message where
  "turnCompleteMessage = emptyMessage\<lparr>turnComplete := True\<rparr>"

definition interruptedMessage :: server_message where
  "interruptedMessage = emptyMessage\<lparr>interrupted := True\<rparr>"

definition audioChunkMessage :: "string \<Rightarrow> server_message" where
  "audioChunkMessage base64 = emptyMessage\<lparr>modelTurn := Some (Some [Some base64])\<rparr>"

text \<open>
  A sequence of buffers handed to the scheduler, each with the clock reading at its
  arrival, and the playback intervals \<open>(start, start + duration)\<close> of the sources a log
  of effects has started.
\<close>

fun scheduleAll :: "(real \<times> audio_buffer) list \<Rightarrow> live_state \<Rightarrow> live_state" where
  "scheduleAll [] st = st"
| "scheduleAll ((now, audioBuffer) # rest) st = scheduleAll rest (scheduleNext now audioBuffer st)"

fun playbackIntervals :: "effect list \<Rightarrow> (real \<times> real) list" where
  "playbackIntervals [] = []"
| "playbackIntervals (SourceStart source startAt # es) =
     (startAt, startAt + duration (sourceBuffer source)) # playbackIntervals es"
| "playbackIntervals (_ # es) = playbackIntervals es"

section \<open>Video generation (services/geminiService, class GeminiService)\<close>

datatype AspectRatio = Ratio_1_1 | Ratio_3_4 | Ratio_4_3 | Ratio_9_16 | Ratio_16_9

datatype Resolution = Res_720p | Res_1080p

text \<open>
  A long-running operation, as far as the service reads it: \<open>operation.done\<close>,
  \<open>operation.metadata?.state\<close> and
  \<open>operation.response?.generatedVideos?.[0]?.video?.uri\<close>.
\<close>

record video_operation =
  opDone :: bool
  metadataState :: "string option"
  videoUri :: "string option"

record video_request =
  requestModel :: string
  requestPrompt :: string
  requestImage :: "(string \<times> string) option"
  numberOfVideos :: nat
  requestResolution :: Resolution
  requestAspectRatio :: AspectRatio

record fetch_response =
  ok :: bool
  statusText :: string
  blobUrl :: "js_error + string"

text \<open>
  What the environment answers to one call of the service: the API key of the process,
  the result of \<open>ai.models.generateVideos\<close>, the results of the successive calls of
  \<open>ai.operations.getVideosOperation\<close> (a finite prefix of them), and the result of
  \<open>fetch\<close>. In a response, \<open>blobUrl\<close> is the result of reading its blob and
  making an object URL of it.
\<close>

record video_world =
  API_KEY :: "string option"
  generateVideosResult :: "js_error + video_operation"
  pollResults :: "(js_error + video_operation) list"
  fetchResult :: "js_error + fetch_response"

datatype video_effect =
    Progress string
  | GenerateVideos video_request
  | Wait nat
  | GetVideosOperation video_operation
  | Fetch string
  | ConsoleError string js_error

text \<open>
  \<open>while (!operation.done) { onProgress(...); await setTimeout 10000; operation = await
  getVideosOperation(operation) }\<close>. The first argument is the text of the progress message
  before the state. The loop has no bound of its own: on a prefix of answers in which the
  operation never completes the result is \<open>None\<close> (the call has not returned).
\<close>

fun pollUntilDone ::
  "string \<Rightarrow> video_operation \<Rightarrow> (js_error + video_operation) list \<Rightarrow> video_effect list
     \<Rightarrow> ((js_error + video_operation) \<times> video_effect list) option" where
  "pollUntilDone waiting operation [] trace =
     (if opDone operation then Some (Inr operation, trace) else None)"
| "pollUntilDone waiting operation (answer # answers) trace =
     (if opDone operation then Some (Inr operation, trace)
      else
        (let trace = trace @ [Progress (waiting @ (case metadataState operation of
                                                 None \<Rightarrow> ''UNKNOWN''
                                               | Some s \<Rightarrow> if s = [] then ''UNKNOWN'' else s)),
                          Wait 10000,
                          GetVideosOperation operation]
         in case answer of
              Inl e \<Rightarrow> Some (Inl e, trace)
            | Inr operation \<Rightarrow> pollUntilDone waiting operation answers trace))"

definition getAiInstance :: "video_world \<Rightarrow> js_error + string" where
  "getAiInstance w =
     (case API_KEY w of
        None \<Rightarrow> Inl (Error
          ''API_KEY is not defined. Please ensure it is set as an environment variable.'')
      | Some key \<Rightarrow>
          if key = [] then Inl (Error
            ''API_KEY is not defined. Please ensure it is set as an environment variable.'')
          else Inr key)"

text \<open>
  The part of both functions after the loop: the download link, the fetch of the video
  and the object URL. The argument is the text of the progress message.
\<close>

definition fetchVideo ::
  "video_world \<Rightarrow> string \<Rightarrow> string \<Rightarrow> video_operation \<Rightarrow> video_effect list
     \<Rightarrow> (js_error + string) \<times> video_effect list" where
  "fetchVideo w key completeMessage operation trace =
     (case videoUri operation of
        None \<Rightarrow> (Inl (Error ''No video download link found.''), trace)
      | Some downloadLink \<Rightarrow>
          if downloadLink = [] then (Inl (Error ''No video download link found.''), trace)
          else
            (let trace = trace @ [Progress completeMessage, Fetch (downloadLink @ ''&key='' @ key)]
             in case fetchResult w of
                  Inl e \<Rightarrow> (Inl e, trace)
                | Inr videoResponse \<Rightarrow>
                    if \<not> ok videoResponse
                    then (Inl (Error (''Failed to fetch video: '' @ statusText videoResponse)),
                          trace)
                    else (blobUrl videoResponse, trace)))"

text \<open>
  The \<open>catch\<close> block of both functions logs the exception and throws it again.
\<close>

definition rethrow ::
  "string \<Rightarrow> (js_error + string) \<times> video_effect list \<Rightarrow> (js_error + string) \<times> video_effect list" where
  "rethrow label r =
     (case r of
        (Inl e, trace) \<Rightarrow> (Inl e, trace @ [ConsoleError label e])
      | (Inr url, trace) \<Rightarrow> (Inr url, trace))"

definition generateVideoFromText ::
  "video_world \<Rightarrow> string \<Rightarrow> AspectRatio \<Rightarrow> Resolution
     \<Rightarrow> ((js_error + string) \<times> video_effect list) option" where
  "generateVideoFromText w prompt aspectRatio resolution =
     (case getAiInstance w of
        Inl e \<Rightarrow> Some (Inl e, [])
      | Inr key \<Rightarrow>
          (let trace = [Progress ''Initiating video generation...'',
                      GenerateVideos \<lparr>requestModel = ''veo-3.1-fast-generate-preview'',
                                      requestPrompt = prompt, requestImage = None,
                                      numberOfVideos = 1, requestResolution = resolution,
                                      requestAspectRatio = aspectRatio\<rparr>]
           in case generateVideosResult w of
                Inl e \<Rightarrow> Some (rethrow ''Error generating video:'' (Inl e, trace))
              | Inr operation \<Rightarrow>
                  (case pollUntilDone
                          ''Video generation in progress... Waiting for 10 seconds. Status: ''
                          operation (pollResults w) trace of
                     None \<Rightarrow> None
                   | Some (Inl e, trace) \<Rightarrow> Some (rethrow ''Error generating video:'' (Inl e, trace))
                   | Some (Inr operation, trace) \<Rightarrow>
                       Some (rethrow ''Error generating video:''
                               (fetchVideo w key ''Video generation complete. Fetching video...''
                                  operation trace)))))"

definition generateVideoFromImage ::
  "video_world \<Rightarrow> string \<Rightarrow> string \<Rightarrow> string \<Rightarrow> AspectRatio \<Rightarrow> Resolution
     \<Rightarrow> ((js_error + string) \<times> video_effect list) option" where
  "generateVideoFromImage w prompt imageBytes imageMimeType aspectRatio resolution =
     (case getAiInstance w of
        Inl e \<Rightarrow> Some (Inl e, [])
      | Inr key \<Rightarrow>
          (let trace = [Progress ''Initiating video generation from image...'',
                      GenerateVideos \<lparr>requestModel = ''veo-3.1-fast-generate-preview'',
                                      requestPrompt = prompt,
                                      requestImage = Some (imageBytes, imageMimeType),
                                      numberOfVideos = 1, requestResolution = resolution,
                                      requestAspectRatio = aspectRatio\<rparr>]
           in case generateVideosResult w of
                Inl e \<Rightarrow> Some (rethrow ''Error generating video from image:'' (Inl e, trace))
              | Inr operation \<Rightarrow>
                  (case pollUntilDone
                          ''Video generation from image in progress... Waiting for 10 seconds. Status: ''
                          operation (pollResults w) trace of
                     None \<Rightarrow> None
                   | Some (Inl e, trace) \<Rightarrow>
                       Some (rethrow ''Error generating video from image:'' (Inl e, trace))
                   | Some (Inr operation, trace) \<Rightarrow>
                       Some (rethrow ''Error generating video from image:''
                               (fetchVideo w key
                                  ''Video generation from image complete. Fetching video...''
                                  operation trace)))))"

text \<open>
  The effects of one poll of an operation that is not done, and the number of calls of
  \<open>generateVideos\<close> in a trace.
\<close>

definition pollEffects :: "string \<Rightarrow> video_operation \<Rightarrow> video_effect list" where
  "pollEffects waiting operation =
     [Progress (waiting @ (case metadataState operation of
                             None \<Rightarrow> ''UNKNOWN''
                           | Some s \<Rightarrow> if s = [] then ''UNKNOWN'' else s)),
      Wait 10000,
      GetVideosOperation operation]"

fun generateCalls :: "video_effect list \<Rightarrow> nat" where
  "generateCalls [] = 0"
| "generateCalls (GenerateVideos _ # es) = Suc (generateCalls es)"
| "generateCalls (_ # es) = generateCalls es"

section \<open>Definitions used in the statements and proofs\<close>

subsection \<open>Base64: the sextets and the padding of an encoding\<close>

fun sextets :: "nat list \<Rightarrow> nat list" where
  "sextets (a # b # c # rest) =
     [a div 4, (a mod 4) * 16 + b div 16, (b mod 16) * 4 + c div 64, c mod 64] @ sextets rest"
| "sextets [a, b] = [a div 4, (a mod 4) * 16 + b div 16, (b mod 16) * 4]"
| "sextets [a] = [a div 4, (a mod 4) * 16]"
| "sextets [] = []"

fun padding :: "nat list \<Rightarrow> string" where
  "padding (a # b # c # rest) = padding rest"
| "padding [a, b] = ''=''"
| "padding [a] = ''==''"
| "padding [] = []"

subsection \<open>The encoder as the specification words it\<close>

text \<open>
  "Scales each sample by 32768, truncates to 16-bit signed, produces little-endian byte
  sequence, then base64-encodes": on integers, without machine words. \<open>wrap16\<close> is the
  signed 16-bit value congruent to an integer modulo \<open>2^16\<close>; \<open>spec_littleEndian\<close>
  lists the low and the high byte of its two's complement.
\<close>

definition wrap16 :: "int \<Rightarrow> int" where
  "wrap16 n = (n + 32768) mod 65536 - 32768"

definition spec_pcm16 :: "sample \<Rightarrow> int" where
  "spec_pcm16 x = wrap16 (trunc (x * 32768))"

definition spec_littleEndian :: "int \<Rightarrow> nat list" where
  "spec_littleEndian v = [nat (v mod 65536 mod 256), nat (v mod 65536 div 256)]"

definition spec_encodeFloatPCM :: "sample list \<Rightarrow> string" where
  "spec_encodeFloatPCM samples =
     btoa (map char_of (concat (map (\<lambda>x. spec_littleEndian (spec_pcm16 x)) samples)))"

subsection \<open>The schedule of a sequence of buffers\<close>

text \<open>
  The playback intervals that scheduling \<open>chunks\<close> from state \<open>st\<close> adds to the log,
  and the same intervals computed from the floor alone.
\<close>

definition scheduledIntervals ::
  "(real \<times> audio_buffer) list \<Rightarrow> live_state \<Rightarrow> (real \<times> real) list" where
  "scheduledIntervals chunks st =
     drop (length (playbackIntervals (effects st)))
       (playbackIntervals (effects (scheduleAll chunks st)))"

fun plan :: "real \<Rightarrow> (real \<times> audio_buffer) list \<Rightarrow> (real \<times> real) list" where
  "plan t0 [] = []"
| "plan t0 ((now, audioBuffer) # rest) =
     (max t0 now, max t0 now + duration audioBuffer)
       # plan (max t0 now + duration audioBuffer) rest"

subsection \<open>Effects that would repeat a step of a video job\<close>

fun repeats :: "video_effect \<Rightarrow> bool" where
  "repeats (GenerateVideos _) = True"
| "repeats (Wait _) = True"
| "repeats (GetVideosOperation _) = True"
| "repeats _ = False"

subsection \<open>Concrete inputs\<close>

text \<open>
  A context with the limits Web Audio requires of every implementation, the constants with
  the rates of the Live API (16 kHz in, 24 kHz out, mono), a start in which the microphone
  and the connection succeed, and a buffer of one second.
\<close>

definition exampleContext :: audio_context where
  "exampleContext = \<lparr>ctxId = 0, maxChannels = 32, minSampleRate = 8000, maxSampleRate = 96000\<rparr>"

definition exampleConstants :: live_constants where
  "exampleConstants =
     \<lparr>LIVE_API_INPUT_SAMPLE_RATE = 16000, LIVE_API_OUTPUT_SAMPLE_RATE = 24000,
      LIVE_API_AUDIO_CHANNELS = 1, LIVE_API_SCRIPT_PROCESSOR_BUFFER_SIZE = 4096\<rparr>"

definition exampleStart :: start_outcome where
  "exampleStart =
     \<lparr>userMedia = Inr 1, newInputContext = exampleContext\<lparr>ctxId := 1\<rparr>,
      newScriptProcessor = 1, connection = Inr (1, exampleContext\<lparr>ctxId := 2\<rparr>)\<rparr>"

definition oneSecond :: audio_buffer where
  "oneSecond = \<lparr>numberOfChannels = 1, frameLength = 24000, sampleRate = 24000,
     channelData = [replicate 24000 0]\<rparr>"

text \<open>
  The scenario of a turn: a freshly mounted component starts a session and receives
  \<open>opened\<close> (\<open>openSession\<close>: the callbacks of that session and the state); partial
  transcripts \<open>hello\<close> (user) and \<open>hi there\<close> (model) arrive (\<open>midTurn\<close>); a
  buffer of one second is scheduled at clock 0 (\<open>playing\<close>).
\<close>

definition openSession :: "render_snapshot \<times> live_state" where
  "openSession =
     (let (callbacks, st) = startRecording exampleStart initialState
      in (callbacks, snd (onopen st)))"

definition midTurn :: live_state where
  "midTurn =
     (let (callbacks, st) = openSession;
          st = snd (onmessage exampleConstants callbacks 0
                      (emptyMessage\<lparr>inputTranscription := Some ''hello''\<rparr>) st)
      in snd (onmessage exampleConstants callbacks 0
                (emptyMessage\<lparr>outputTranscription := Some ''hi there''\<rparr>) st))"

definition playing :: live_state where
  "playing = scheduleNext 0 oneSecond midTurn"

text \<open>
  A video job that is pending at creation and at the first poll, and done without a
  download link at the second.
\<close>

definition pendingOperation :: video_operation where
  "pendingOperation = \<lparr>opDone = False, metadataState = Some ''RUNNING'', videoUri = None\<rparr>"

definition doneWithoutLink :: video_operation where
  "doneWithoutLink = \<lparr>opDone = True, metadataState = None, videoUri = None\<rparr>"

definition exampleWorld :: video_world where
  "exampleWorld =
     \<lparr>API_KEY = Some ''key'', generateVideosResult = Inr pendingOperation,
      pollResults = [Inr (pendingOperation\<lparr>metadataState := None\<rparr>), Inr doneWithoutLink,
                     Inr pendingOperation],
      fetchResult = Inr \<lparr>ok = True, statusText = ''OK'', blobUrl = Inr ''blob:video''\<rparr>\<rparr>"

section \<open>The loading counter\<close>

lemma loadingCall_nonneg: "0 \<le> n \<Longrightarrow> 0 \<le> loadingCall c n"
  by (cases c) (simp_all add: incrementLoading_def decrementLoading_def)

lemma loadingCalls_nonneg: "0 \<le> n \<Longrightarrow> 0 \<le> loadingCalls cs n"
  by (induction cs arbitrary: n) (simp_all add: loadingCall_nonneg)

lemma loadingCalls_append: "loadingCalls (cs @ ds) n = loadingCalls ds (loadingCalls cs n)"
  by (induction cs arbitrary: n) simp_all

text \<open>
  C10. The updates of the counter are applied in the order of the calls. Starting from
  zero, after any sequence of increment and decrement calls (so also after each of its
  prefixes) the counter is not negative; a decrement at zero leaves zero, and in general a
  decrement gives the larger of zero and the counter minus one; the derived flag
  \<open>isLoading\<close> is true exactly when the counter is positive.
\<close>

theorem loading_counter_never_negative:
  "0 \<le> loadingCalls (take i cs) 0
   \<and> decrementLoading 0 = 0
   \<and> loadingCalls (cs @ [DecrementLoading]) 0 = max 0 (loadingCalls cs 0 - 1)
   \<and> isLoading (loadingCalls cs 0) = (0 < loadingCalls cs 0)"
  by (simp add: loadingCalls_nonneg loadingCalls_append decrementLoading_def isLoading_def)

section \<open>Base64 round trip\<close>

lemma btoa_groups_sextets: "btoa_groups xs = map b64char (sextets xs) @ padding xs"
  by (induction xs rule: btoa_groups.induct) simp_all

lemma length_btoa_groups: "length (btoa_groups xs) mod 4 = 0"
  by (induction xs rule: btoa_groups.induct) simp_all

lemma sextets_bound: "\<forall>x\<in>set xs. x < 256 \<Longrightarrow> \<forall>s\<in>set (sextets xs). s < 64"
  by (induction xs rule: sextets.induct) auto

lemma byte_digits:
  fixes b :: nat
  assumes "b < 256"
  shows "b div 16 div 16 = 0" and "b div 16 mod 16 = b div 16"
    and "b div 64 div 4 = 0" and "b div 64 mod 4 = b div 64"
  using assms by simp_all

lemma atob_groups_sextets: "\<forall>x\<in>set xs. x < 256 \<Longrightarrow> atob_groups (sextets xs) = xs"
  by (induction xs rule: sextets.induct) (simp_all add: byte_digits)

lemma length_sextets: "length (sextets xs) mod 4 \<noteq> 1"
  by (induction xs rule: sextets.induct) simp_all

lemma index_of_nth: "distinct xs \<Longrightarrow> i < length xs \<Longrightarrow> index_of (xs ! i) xs = Some i"
proof (induction xs arbitrary: i)
  case Nil
  then show ?case by simp
next
  case (Cons y ys)
  show ?case
  proof (cases i)
    case 0
    then show ?thesis by simp
  next
    case (Suc j)
    with Cons.prems have "ys ! j \<in> set ys" "y \<notin> set ys" by auto
    then have "ys ! j \<noteq> y" by auto
    with Cons Suc show ?thesis by simp
  qed
qed

lemma length_b64alphabet: "length b64alphabet = 64"
  by (simp add: b64alphabet_def)

lemma distinct_b64alphabet: "distinct b64alphabet"
  by (simp add: b64alphabet_def)

lemma b64index_b64char: "n < 64 \<Longrightarrow> b64index (b64char n) = Some n"
  by (simp add: b64index_def b64char_def index_of_nth distinct_b64alphabet length_b64alphabet)

lemma b64char_in: "n < 64 \<Longrightarrow> b64char n \<in> set b64alphabet"
  by (simp add: b64char_def length_b64alphabet)

lemma b64alphabet_plain:
  "c \<in> set b64alphabet \<Longrightarrow> c \<noteq> CHR ''='' \<and> \<not> isAsciiWhitespace c"
  by (auto simp add: b64alphabet_def isAsciiWhitespace_def)

lemma those_map_Some:
  "\<forall>x\<in>set xs. f x = Some (g x) \<Longrightarrow> those (map f xs) = Some (map g xs)"
  by (induction xs) simp_all

lemma padding_cases: "padding xs = [] \<or> padding xs = ''='' \<or> padding xs = ''==''"
  by (induction xs rule: padding.induct) simp_all

lemma endsWith_padding:
  assumes "\<forall>c\<in>set ys. c \<noteq> CHR ''=''"
  shows "\<not> endsWith ys ''=''" and "\<not> endsWith ys ''==''"
    and "\<not> endsWith (ys @ ''='') ''==''"
    and "endsWith (ys @ ''='') ''=''" and "endsWith (ys @ ''=='') ''==''"
proof -
  show "\<not> endsWith ys ''=''"
  proof
    assume "endsWith ys ''=''"
    then have "drop (length ys - 1) ys = ''=''" by (simp add: endsWith_def)
    then have "CHR ''='' \<in> set (drop (length ys - 1) ys)" by simp
    then have "CHR ''='' \<in> set ys" by (rule in_set_dropD)
    with assms show False by blast
  qed
  show "\<not> endsWith ys ''==''"
  proof
    assume "endsWith ys ''==''"
    then have "drop (length ys - 2) ys = ''==''" by (simp add: endsWith_def numeral_2_eq_2)
    then have "CHR ''='' \<in> set (drop (length ys - 2) ys)" by simp
    then have "CHR ''='' \<in> set ys" by (rule in_set_dropD)
    with assms show False by blast
  qed
  show "\<not> endsWith (ys @ ''='') ''==''"
  proof
    assume "endsWith (ys @ ''='') ''==''"
    then have "1 \<le> length ys" "drop (length ys - 1) ys @ ''='' = ''==''"
      by (simp_all add: endsWith_def)
    then have "drop (length ys - 1) ys = ''=''" by simp
    then have "CHR ''='' \<in> set (drop (length ys - 1) ys)" by simp
    then have "CHR ''='' \<in> set ys" by (rule in_set_dropD)
    with assms show False by blast
  qed
  show "endsWith (ys @ ''='') ''=''" by (simp add: endsWith_def)
  show "endsWith (ys @ ''=='') ''==''" by (simp add: endsWith_def)
qed

lemma stripPadding_btoa_groups:
  assumes "\<forall>x\<in>set xs. x < 256"
  shows "stripPadding (btoa_groups xs) = map b64char (sextets xs)"
proof -
  let ?ys = "map b64char (sextets xs)"
  have plain: "\<forall>c\<in>set ?ys. c \<noteq> CHR ''=''"
    using sextets_bound [OF assms] b64char_in b64alphabet_plain by auto
  have len: "length (?ys @ padding xs) mod 4 = 0"
    using length_btoa_groups [of xs] by (simp add: btoa_groups_sextets)
  from padding_cases [of xs] show ?thesis
  proof (elim disjE)
    assume "padding xs = []"
    with len endsWith_padding(1,2) [OF plain] show ?thesis
      by (simp add: btoa_groups_sextets stripPadding_def)
  next
    assume "padding xs = ''=''"
    with len endsWith_padding(3,4) [OF plain] show ?thesis
      by (simp add: btoa_groups_sextets stripPadding_def)
  next
    assume "padding xs = ''==''"
    with len endsWith_padding(5) [OF plain] show ?thesis
      by (simp add: btoa_groups_sextets stripPadding_def)
  qed
qed

lemma no_whitespace_btoa_groups:
  assumes "\<forall>x\<in>set xs. x < 256"
  shows "filter (\<lambda>c. \<not> isAsciiWhitespace c) (btoa_groups xs) = btoa_groups xs"
proof -
  have "\<forall>c\<in>set (map b64char (sextets xs)). \<not> isAsciiWhitespace c"
    using sextets_bound [OF assms] b64char_in b64alphabet_plain by auto
  moreover have "\<forall>c\<in>set (padding xs). \<not> isAsciiWhitespace c"
    using padding_cases [of xs] by (auto simp add: isAsciiWhitespace_def)
  ultimately show ?thesis
    by (simp add: btoa_groups_sextets)
qed

lemma atob_btoa: "atob (btoa s) = Inr s"
proof -
  let ?xs = "map of_char s :: nat list"
  have bound: "\<forall>x\<in>set ?xs. x < 256" by simp
  have idx: "those (map b64index (map b64char (sextets ?xs))) = Some (sextets ?xs)"
    using sextets_bound [OF bound]
    by (simp add: those_map_Some [where g = id] b64index_b64char comp_def)
  have "map char_of (atob_groups (sextets ?xs)) = s"
    by (simp add: atob_groups_sextets [OF bound] comp_def)
  then show ?thesis
    using length_sextets [of ?xs] idx
    by (simp add: atob_def btoa_def no_whitespace_btoa_groups [OF bound]
        stripPadding_btoa_groups [OF bound])
qed

lemma charCodeAt_fromCharCode: "charCodeAt (fromCharCode b) = b"
proof -
  have "unat b < 2 ^ LENGTH(8)" by (rule unsigned_less)
  then have "unat b < 256" by simp
  then show ?thesis by (simp add: charCodeAt_def fromCharCode_def of_char_of)
qed

lemma map_charCodeAt_fromCharCode: "map (charCodeAt \<circ> fromCharCode) bytes = bytes"
  by (induction bytes) (simp_all add: charCodeAt_fromCharCode)

lemma decode_encode: "decode (encode bytes) = Inr bytes"
  by (simp add: decode_def encode_def atob_btoa map_charCodeAt_fromCharCode)

section \<open>The PCM codec\<close>

lemma int16_of_bytes:
  "(push_bit 8 (ucast (ucast (drop_bit 8 w) :: byte)) OR ucast (ucast w :: byte) :: int16) = w"
  by (rule bit_word_eqI) (auto simp add: bit_simps)

lemma int16Pairs_uint8View: "int16Pairs (uint8View ws) = ws"
  by (induction ws) (simp_all add: uint8View_def int16_of_bytes)

lemma length_uint8View: "length (uint8View ws) = 2 * length ws"
  by (induction ws) (simp_all add: uint8View_def)

lemma int16View_uint8View: "int16View (uint8View ws) = Inr ws"
  by (simp add: int16View_def length_uint8View int16Pairs_uint8View)

lemma sint_toInt16: "sint (toInt16 y) = wrap16 (trunc y)"
  by (simp add: toInt16_def wrap16_def int_word_sint)

lemma trunc_bounds:
  assumes "- 32768 \<le> y" "y < 32768"
  shows "- 32768 \<le> trunc y" "trunc y \<le> 32767" "\<bar>real_of_int (trunc y) - y\<bar> < 1"
  using assms unfolding trunc_def
  by (auto simp: le_floor_iff floor_less_iff ceiling_le_iff le_ceiling_iff) linarith+

lemma wrap16_id: "- 32768 \<le> n \<Longrightarrow> n \<le> 32767 \<Longrightarrow> wrap16 n = n"
  by (simp add: wrap16_def)

lemma wrap16_range: "- 32768 \<le> wrap16 n \<and> wrap16 n \<le> 32767"
  by (simp add: wrap16_def)

lemma wrap16_mod: "wrap16 n mod 65536 = n mod 65536"
proof -
  have "wrap16 n = (n + 32768) mod 65536 + (- 32768)" by (simp add: wrap16_def)
  then have "wrap16 n mod 65536 = ((n + 32768) + (- 32768)) mod 65536"
    by (simp only: mod_add_left_eq)
  then show ?thesis by simp
qed

lemma lo_byte: "unat (ucast (w :: int16) :: byte) = nat (uint w mod 256)"
  by (simp add: unsigned_ucast_eq take_bit_eq_mod nat_mod_distrib)

lemma hi_byte: "unat (ucast (drop_bit 8 (w :: int16)) :: byte) = nat (uint w div 256)"
proof -
  have "unat w < 2 ^ LENGTH(16)" by (rule unsigned_less)
  then have small: "unat w div 256 < 256" by simp
  have "unat (drop_bit 8 w) = unat w div 256"
    by (simp only: unat_drop_bit_eq) (simp add: drop_bit_eq_div)
  then have "unat (ucast (drop_bit 8 w) :: byte) = (unat w div 256) mod 256"
    by (simp only: unsigned_ucast_eq take_bit_eq_mod) simp
  also have "\<dots> = unat w div 256" using small by simp
  also have "\<dots> = nat (uint w div 256)" by (simp add: nat_div_distrib)
  finally show ?thesis .
qed

lemma uint_toInt16: "uint (toInt16 y) = wrap16 (trunc y) mod 65536"
  by (simp add: toInt16_def wrap16_mod uint_word_of_int)

lemma le_bytes_toInt16:
  "map fromCharCode [ucast (toInt16 y), ucast (drop_bit 8 (toInt16 y))]
   = map char_of (spec_littleEndian (wrap16 (trunc y)))"
proof -
  have "fromCharCode (ucast (toInt16 y)) = char_of (nat (wrap16 (trunc y) mod 65536 mod 256))"
    unfolding fromCharCode_def lo_byte uint_toInt16 by (rule refl)
  moreover have "fromCharCode (ucast (drop_bit 8 (toInt16 y)))
      = char_of (nat (wrap16 (trunc y) mod 65536 div 256))"
    unfolding fromCharCode_def hi_byte uint_toInt16 by (rule refl)
  ultimately show ?thesis
    unfolding spec_littleEndian_def list.map by (simp only:)
qed

lemma map_uint8View:
  "map g (uint8View (map f xs))
   = concat (map (\<lambda>x. map g [ucast (f x), ucast (drop_bit 8 (f x))]) xs)"
  unfolding uint8View_def by (induction xs) simp_all

lemma bytes_toInt16:
  "map fromCharCode (uint8View (map (\<lambda>x. toInt16 (x * 32768)) xs))
   = map char_of (concat (map (\<lambda>x. spec_littleEndian (spec_pcm16 x)) xs))"
  unfolding map_uint8View le_bytes_toInt16 spec_pcm16_def map_concat map_map comp_def
  by (rule refl)

lemma decode_createPcmBlob:
  "decode (data (createPcmBlob k xs)) = Inr (uint8View (map (\<lambda>x. toInt16 (x * 32768)) xs))"
  by (simp add: createPcmBlob_def decode_encode)

lemma createPcmBlob_spec: "data (createPcmBlob k xs) = spec_encodeFloatPCM xs"
  by (simp add: createPcmBlob_def encode_def spec_encodeFloatPCM_def bytes_toInt16)

text \<open>
  C5. The base64 text of the blob is the encoding the specification describes: each
  sample times 32768, cut off towards zero, taken as a signed 16-bit value modulo
  \<open>2^16\<close> (stored in an Int16Array element: reading it back gives that value), low byte
  first, in base64, and decoding the text gives those bytes back. The stored value of a
  sample \<open>x\<close> is the number in \<open>[-32768, 32767]\<close> congruent to the truncated product
  modulo \<open>2^16\<close>, whatever \<open>x\<close> is. Nothing clamps: the
  sample 1.5, outside \<open>[-1, 1]\<close>, scales to 49152 and is stored as \<open>-16384\<close>, neither
  49152 nor the saturated 32767, and the blob of that sample is the text \<open>AMA=\<close> (the
  bytes 00 C0); the function has no error result.
\<close>

theorem createPcmBlob_encoding:
  "data (createPcmBlob k samples) = spec_encodeFloatPCM samples
   \<and> map sint (map (\<lambda>x. toInt16 (x * 32768)) samples) = map spec_pcm16 samples
   \<and> atob (data (createPcmBlob k samples))
       = Inr (map char_of (concat (map (\<lambda>x. spec_littleEndian (spec_pcm16 x)) samples)))
   \<and> spec_pcm16 x mod 65536 = trunc (x * 32768) mod 65536
   \<and> - 32768 \<le> spec_pcm16 x \<and> spec_pcm16 x \<le> 32767
   \<and> trunc (3/2 * 32768) = 49152 \<and> spec_pcm16 (3/2) = - 16384
   \<and> data (createPcmBlob k [3/2]) = ''AMA=''"
proof -
  have wraps: "spec_pcm16 x mod 65536 = trunc (x * 32768) mod 65536"
    "- 32768 \<le> spec_pcm16 x" "spec_pcm16 x \<le> 32767"
    using wrap16_range [of "trunc (x * 32768)"] by (simp_all add: spec_pcm16_def wrap16_mod)
  have enc: "data (createPcmBlob k samples) = spec_encodeFloatPCM samples"
    by (rule createPcmBlob_spec)
  have stored: "map sint (map (\<lambda>x. toInt16 (x * 32768)) samples) = map spec_pcm16 samples"
    by (simp add: sint_toInt16 spec_pcm16_def)
  have decoded: "atob (data (createPcmBlob k samples))
       = Inr (map char_of (concat (map (\<lambda>x. spec_littleEndian (spec_pcm16 x)) samples)))"
    unfolding enc spec_encodeFloatPCM_def by (rule atob_btoa)
  have one: "trunc (3/2 * 32768) = 49152" "spec_pcm16 (3/2) = - 16384"
    by (simp_all add: spec_pcm16_def wrap16_def trunc_def)
  have "spec_encodeFloatPCM [3/2] = ''AMA=''"
    by (simp add: spec_encodeFloatPCM_def spec_littleEndian_def spec_pcm16_def wrap16_def
        trunc_def btoa_def b64char_def b64alphabet_def)
  then have blob: "data (createPcmBlob k [3/2]) = ''AMA=''"
    by (simp only: createPcmBlob_spec)
  from enc stored decoded wraps one blob show ?thesis by blast
qed

lemma decodeAudioData_mono:
  assumes "ws \<noteq> []" "1 \<le> maxChannels ctx" "0 < rate" "minSampleRate ctx \<le> rate"
    "rate \<le> maxSampleRate ctx"
  shows "decodeAudioData (uint8View ws) ctx rate 1
    = Inr \<lparr>numberOfChannels = 1, frameLength = length ws, sampleRate = rate,
           channelData = [map (\<lambda>w. real_of_int (sint w) / 32768) ws]\<rparr>"
proof -
  have "map (\<lambda>i. real_of_int (sint (ws ! i)) / 32768) [0..<length ws]
      = map (\<lambda>w. real_of_int (sint w) / 32768) ws"
    by (rule nth_equalityI) simp_all
  with assms show ?thesis
    by (simp add: decodeAudioData_def int16View_uint8View createBuffer_def)
qed

lemma sample_roundtrip:
  assumes "- 1 \<le> x" "x < 1"
  shows "\<bar>real_of_int (sint (toInt16 (x * 32768))) / 32768 - x\<bar> \<le> 1 / 32768"
proof -
  let ?y = "x * 32768"
  from assms have range: "- 32768 \<le> ?y" "?y < 32768" by simp_all
  have "sint (toInt16 ?y) = trunc ?y"
    using trunc_bounds(1,2) [OF range] by (simp add: sint_toInt16 wrap16_id)
  moreover have "\<bar>real_of_int (trunc ?y) - ?y\<bar> < 1"
    by (rule trunc_bounds(3) [OF range])
  ultimately have "\<bar>real_of_int (sint (toInt16 ?y)) - ?y\<bar> < 1" by simp
  then show ?thesis unfolding abs_less_iff abs_le_iff by linarith
qed

text \<open>
  C4, as amended. For every non-empty sequence of samples that all lie in \<open>[-1, 1)\<close>,
  on a context that accepts a mono buffer at the given rate, decoding the base64 text of
  \<open>createPcmBlob\<close> and handing the bytes to \<open>decodeAudioData\<close> with one channel
  succeeds and gives one channel of the same length, each sample of which differs from
  the original by at most 1/32768.
\<close>

theorem pcm_roundtrip:
  assumes "samples \<noteq> []" and "\<forall>x\<in>set samples. - 1 \<le> x \<and> x < 1"
    and "1 \<le> maxChannels ctx" and "0 < rate"
    and "minSampleRate ctx \<le> rate" and "rate \<le> maxSampleRate ctx"
  shows "\<exists>bytes buffer out.
           decode (data (createPcmBlob k samples)) = Inr bytes
         \<and> decodeAudioData bytes ctx rate 1 = Inr buffer
         \<and> channelData buffer = [out]
         \<and> length out = length samples
         \<and> (\<forall>i<length samples. \<bar>out ! i - samples ! i\<bar> \<le> 1 / 32768)"
proof -
  let ?ws = "map (\<lambda>x. toInt16 (x * 32768)) samples"
  let ?out = "map (\<lambda>w. real_of_int (sint w) / 32768) ?ws"
  let ?buffer = "\<lparr>numberOfChannels = 1, frameLength = length ?ws, sampleRate = rate,
           channelData = [?out]\<rparr>"
  have ne: "?ws \<noteq> []" using assms(1) by simp
  have dec: "decodeAudioData (uint8View ?ws) ctx rate 1 = Inr ?buffer"
    by (rule decodeAudioData_mono [OF ne assms(3-6)])
  have close: "\<forall>i<length samples. \<bar>?out ! i - samples ! i\<bar> \<le> 1 / 32768"
  proof (intro allI impI)
    fix i assume i: "i < length samples"
    then have "samples ! i \<in> set samples" by simp
    with assms(2) have "- 1 \<le> samples ! i" "samples ! i < 1" by auto
    then have "\<bar>real_of_int (sint (toInt16 (samples ! i * 32768))) / 32768 - samples ! i\<bar>
        \<le> 1 / 32768"
      by (rule sample_roundtrip)
    with i show "\<bar>?out ! i - samples ! i\<bar> \<le> 1 / 32768"
      by (simp only: nth_map length_map)
  qed
  have "decode (data (createPcmBlob k samples)) = Inr (uint8View ?ws)
      \<and> decodeAudioData (uint8View ?ws) ctx rate 1 = Inr ?buffer
      \<and> channelData ?buffer = [?out] \<and> length ?out = length samples
      \<and> (\<forall>i<length samples. \<bar>?out ! i - samples ! i\<bar> \<le> 1 / 32768)"
    using decode_createPcmBlob [of k samples] dec close by simp
  then show ?thesis by blast
qed

text \<open>
  The samples 1/2, -1 and -3/10 through the codec, on the example context at 24 kHz.
\<close>

theorem pcm_roundtrip_witness:
  "\<exists>bytes buffer out.
     decode (data (createPcmBlob exampleConstants [1/2, - 1, - 3/10])) = Inr bytes
   \<and> decodeAudioData bytes exampleContext 24000 1 = Inr buffer
   \<and> channelData buffer = [out]
   \<and> length out = 3
   \<and> \<bar>out ! 0 - 1/2\<bar> \<le> 1 / 32768 \<and> \<bar>out ! 1 - (- 1)\<bar> \<le> 1 / 32768
   \<and> \<bar>out ! 2 - (- 3/10)\<bar> \<le> 1 / 32768"
proof -
  have "\<exists>bytes buffer out.
     decode (data (createPcmBlob exampleConstants [1/2, - 1, - 3/10])) = Inr bytes
   \<and> decodeAudioData bytes exampleContext 24000 1 = Inr buffer
   \<and> channelData buffer = [out]
   \<and> length out = length [1/2, - 1, - 3/10 :: real]
   \<and> (\<forall>i<length [1/2, - 1, - 3/10 :: real].
         \<bar>out ! i - [1/2, - 1, - 3/10] ! i\<bar> \<le> 1 / 32768)"
    by (rule pcm_roundtrip) (simp_all add: exampleContext_def)
  then obtain bytes buffer out where
    run: "decode (data (createPcmBlob exampleConstants [1/2, - 1, - 3/10])) = Inr bytes"
       "decodeAudioData bytes exampleContext 24000 1 = Inr buffer"
       "channelData buffer = [out]" "length out = 3"
    and near: "\<forall>i<length [1/2, - 1, - 3/10 :: real].
         \<bar>out ! i - [1/2, - 1, - 3/10] ! i\<bar> \<le> 1 / 32768"
    by auto
  from near have "\<bar>out ! 0 - 1/2\<bar> \<le> 1 / 32768" "\<bar>out ! 1 - (- 1)\<bar> \<le> 1 / 32768"
    "\<bar>out ! 2 - (- 3/10)\<bar> \<le> 1 / 32768"
    by (auto simp add: nth_Cons' All_less_Suc numeral_3_eq_3 numeral_2_eq_2)
  with run show ?thesis by blast
qed

text \<open>
  Where the claim as stated fails. The sample 1 lies in \<open>[-1, 1]\<close>; it scales to 32768,
  which is stored as \<open>-32768\<close> (the bytes 00 80), and decodes to \<open>-1\<close>: an error of 2.
  And the empty sequence encodes to no bytes, for which \<open>decodeAudioData\<close> raises (a
  buffer of zero frames is refused) instead of giving an empty sequence.
\<close>

theorem pcm_roundtrip_counterexample:
  "decode (data (createPcmBlob exampleConstants [1])) = Inr [0, 128]
   \<and> decodeAudioData [0, 128] exampleContext 24000 1
       = Inr \<lparr>numberOfChannels = 1, frameLength = 1, sampleRate = 24000, channelData = [[- 1]]\<rparr>
   \<and> \<not> \<bar>(- 1) - (1 :: real)\<bar> \<le> 1 / 32768
   \<and> decode (data (createPcmBlob exampleConstants [])) = Inr []
   \<and> decodeAudioData [] exampleContext 24000 1 = Inl NotSupportedError"
  by (simp add: decode_createPcmBlob uint8View_def toInt16_def trunc_def
      decodeAudioData_def int16View_def createBuffer_def exampleContext_def)

section \<open>Teardown\<close>

lemma stopRecording_released:
  "sessionRef (stopRecording r st) = None"
  "scriptProcessorRef (stopRecording r st) = None"
  "streamRef (stopRecording r st) = None"
  "inputAudioContextRef (stopRecording r st) = None"
  "outputAudioContextRef (stopRecording r st) = None"
  "sourcesRef (stopRecording r st) = []"
  "nextStartTimeRef (stopRecording r st) = 0"
  by (simp_all add: stopRecording_def Let_def split: option.splits)

lemma stopRecording_state:
  "isRecording (stopRecording r st) = False"
  "currentInputTranscription (stopRecording r st) = []"
  "currentOutputTranscription (stopRecording r st) = []"
  "statusMessage (stopRecording r st) = ''Conversation ended.''"
  "error (stopRecording r st) = (if r then None else error st)"
  "transcriptionHistory (stopRecording r st) = transcriptionHistory st"
  "activeRequests (stopRecording r st) = activeRequests st"
  "nextSourceId (stopRecording r st) = nextSourceId st"
  by (simp_all add: stopRecording_def Let_def split: option.splits)

lemma stopRecording_idle:
  assumes "sessionRef st = None" "scriptProcessorRef st = None" "streamRef st = None"
    "inputAudioContextRef st = None" "outputAudioContextRef st = None" "sourcesRef st = []"
  shows "stopRecording r st =
    st\<lparr>isRecording := False, nextStartTimeRef := 0, currentInputTranscription := [],
       currentOutputTranscription := [], error := (if r then None else error st),
       statusMessage := ''Conversation ended.''\<rparr>"
  using assms by (simp add: stopRecording_def Let_def)

lemma stopRecording_twice:
  "stopRecording r2 (stopRecording r1 st)
   = (stopRecording r1 st)\<lparr>error := (if r2 then None else error (stopRecording r1 st))\<rparr>"
  by (rule live_state.equality)
     (simp_all add: stopRecording_idle stopRecording_released stopRecording_state)

text \<open>
  C7. From any state and with any flags, after \<open>stopRecording\<close> has run twice in a row
  the session handle, the capture node, the microphone stream and both audio contexts are
  null, the active set is empty and the floor is zero. The second run calls nothing (the
  log of effects is the one the first run left), so it cannot raise; with the same flag it
  leaves the very state of the first run, and with any flags the two states differ at most
  in the error message (which a second run with the reset flag clears).
\<close>

theorem stopRecording_idempotent:
  "sessionRef (stopRecording r2 (stopRecording r1 st)) = None
   \<and> scriptProcessorRef (stopRecording r2 (stopRecording r1 st)) = None
   \<and> streamRef (stopRecording r2 (stopRecording r1 st)) = None
   \<and> inputAudioContextRef (stopRecording r2 (stopRecording r1 st)) = None
   \<and> outputAudioContextRef (stopRecording r2 (stopRecording r1 st)) = None
   \<and> sourcesRef (stopRecording r2 (stopRecording r1 st)) = []
   \<and> nextStartTimeRef (stopRecording r2 (stopRecording r1 st)) = 0
   \<and> effects (stopRecording r2 (stopRecording r1 st)) = effects (stopRecording r1 st)
   \<and> stopRecording r1 (stopRecording r1 st) = stopRecording r1 st
   \<and> stopRecording r2 (stopRecording r1 st)
       = (stopRecording r1 st)\<lparr>error := (if r2 then None else error (stopRecording r1 st))\<rparr>"
proof -
  have same: "stopRecording r1 (stopRecording r1 st) = stopRecording r1 st"
    by (simp add: stopRecording_twice stopRecording_state)
  have quiet: "effects (stopRecording r2 (stopRecording r1 st)) = effects (stopRecording r1 st)"
    by (simp add: stopRecording_twice)
  show ?thesis
    by (intro conjI stopRecording_released same quiet stopRecording_twice)
qed

text \<open>
  C8. A capture callback that fires after teardown changes nothing: the state, and with
  it the log of calls, is the one teardown left. In any state with a null session handle the
  callback is the identity; with a handle it sends exactly one blob, the encoding of the
  frame, to that session; so the log grows exactly when the handle is not null. The
  callback has no error result: the encoding cannot raise and the send is guarded.
\<close>

theorem onaudioprocess_after_teardown:
  "onaudioprocess k inputData (stopRecording r st) = stopRecording r st
   \<and> onaudioprocess k inputData (st\<lparr>sessionRef := None\<rparr>) = st\<lparr>sessionRef := None\<rparr>
   \<and> effects (onaudioprocess k inputData (st\<lparr>sessionRef := Some session\<rparr>))
       = effects st @ [SendRealtimeInput session (createPcmBlob k inputData)]
   \<and> (effects (onaudioprocess k inputData st) \<noteq> effects st) = (sessionRef st \<noteq> None)"
  by (auto simp add: onaudioprocess_def Let_def stopRecording_released split: option.splits)

lemma onerror_error: "error (onerror eventType st) = None"
  by (simp add: onerror_def Let_def stopRecording_state)

lemma onclose_error:
  "error (onclose code reason st) =
    (if code \<noteq> 1000
     then Some (''Live Session closed unexpectedly: '' @ numberToString code @ '' - '' @ reason)
     else error st)"
  by (simp add: onclose_def Let_def stopRecording_state)

lemma cleanup_error: "error (cleanup st) = error st"
  by (simp add: cleanup_def stopRecording_state)

section \<open>The scenario of a turn\<close>

lemma openSession_eq:
  "openSession =
    (\<lparr>capturedInputTranscription = [], capturedOutputTranscription = []\<rparr>,
     initialState\<lparr>statusMessage := ''Recording...'', isRecording := True,
       streamRef := Some 1, inputAudioContextRef := Some (exampleContext\<lparr>ctxId := 1\<rparr>),
       scriptProcessorRef := Some 1, sessionRef := Some 1,
       outputAudioContextRef := Some (exampleContext\<lparr>ctxId := 2\<rparr>),
       effects := [WireCapture 1]\<rparr>)"
  by (simp add: openSession_def startRecording_def exampleStart_def snapshot_def initialState_def
      onopen_def Let_def incrementLoading_def decrementLoading_def)

lemma playAudio_None: "playAudio k now None st = (None, st)"
  by (simp add: playAudio_def)

lemma onmessage_turnComplete:
  "onmessage k callbacks now turnCompleteMessage st = (None, commitTurn callbacks st)"
  by (simp add: onmessage_def turnCompleteMessage_def emptyMessage_def appendTranscription_def
      audioData_def playAudio_None Let_def)

lemma history_commitTurn:
  "transcriptionHistory (commitTurn callbacks st) =
     transcriptionHistory st
     @ (if capturedInputTranscription callbacks \<noteq> []
        then [\<lparr>entryType = USER, entryText = capturedInputTranscription callbacks\<rparr>] else [])
     @ (if capturedOutputTranscription callbacks \<noteq> []
        then [\<lparr>entryType = MODEL, entryText = capturedOutputTranscription callbacks\<rparr>] else [])"
  by (simp add: commitTurn_def Let_def)

lemma midTurn_eq:
  "midTurn = (snd openSession)\<lparr>currentInputTranscription := ''hello'',
      currentOutputTranscription := ''hi there''\<rparr>"
  by (simp add: midTurn_def openSession_eq onmessage_def appendTranscription_def emptyMessage_def
      audioData_def playAudio_None Let_def initialState_def)

text \<open>
  C2, the code at the input where it departs from the claim. After \<open>onerror\<close> has set
  its message and run teardown, no error message is set, for every event type and every
  state (here also at the open session of the scenario): the handler calls
  \<open>stopRecording()\<close> with the default flag, which clears the message it has just set.
  (\<open>onclose_error\<close> and \<open>cleanup_error\<close> are the two paths that keep it.)
\<close>

theorem onerror_clears_its_error:
  "error (onerror eventType st) = None
   \<and> error (onerror ''error'' (snd openSession)) = None"
  by (simp add: onerror_error)

text \<open>
  C1, the code at the input where it departs from the claim. In the scenario the running
  transcripts are \<open>hello\<close> and \<open>hi there\<close> and the history is empty when
  \<open>turnComplete\<close> arrives; the handler returns normally, clears both running
  transcripts, and leaves the history empty: what it tests and commits are the variables
  its closure captured when the session was started, which are empty.
  (\<open>history_commitTurn\<close> is the general statement.)
\<close>

theorem turnComplete_commits_nothing:
  "currentInputTranscription midTurn = ''hello''
   \<and> currentOutputTranscription midTurn = ''hi there''
   \<and> transcriptionHistory midTurn = []
   \<and> fst (onmessage exampleConstants (fst openSession) 0 turnCompleteMessage midTurn) = None
   \<and> transcriptionHistory
        (snd (onmessage exampleConstants (fst openSession) 0 turnCompleteMessage midTurn)) = []
   \<and> currentInputTranscription
        (snd (onmessage exampleConstants (fst openSession) 0 turnCompleteMessage midTurn)) = []
   \<and> currentOutputTranscription
        (snd (onmessage exampleConstants (fst openSession) 0 turnCompleteMessage midTurn)) = []"
  by (simp add: onmessage_turnComplete history_commitTurn midTurn_eq openSession_eq
      initialState_def commitTurn_def)

section \<open>The playback scheduler\<close>

lemma duration_nonneg: "0 \<le> duration b"
  by (simp add: duration_def)

lemma playbackIntervals_append:
  "playbackIntervals (es @ es') = playbackIntervals es @ playbackIntervals es'"
  by (induction es rule: playbackIntervals.induct) simp_all

lemma scheduleNext_effects:
  "effects (scheduleNext now b st) =
     effects st @ [SourceStart \<lparr>sourceId = nextSourceId st, sourceBuffer = b\<rparr>
                     (max (nextStartTimeRef st) now)]"
  by (simp add: scheduleNext_def startSource_def raiseFloor_def Let_def)

lemma scheduleNext_floor:
  "nextStartTimeRef (scheduleNext now b st) = max (nextStartTimeRef st) now + duration b"
  by (simp add: scheduleNext_def startSource_def raiseFloor_def Let_def)

text \<open>
  An \<open>audioChunk\<close> message whose payload decodes is one step of the scheduler.
\<close>

lemma onmessage_audioChunk:
  assumes "outputAudioContextRef st = Some ctx" and "base64 \<noteq> []"
    and "decode base64 = Inr bytes"
    and "decodeAudioData bytes ctx (LIVE_API_OUTPUT_SAMPLE_RATE k) (LIVE_API_AUDIO_CHANNELS k)
           = Inr audioBuffer"
  shows "onmessage k callbacks now (audioChunkMessage base64) st
           = (None, scheduleNext now audioBuffer st)"
  using assms
  by (simp add: onmessage_def audioChunkMessage_def emptyMessage_def appendTranscription_def
      audioData_def playAudio_def scheduleNext_def raiseFloor_def Let_def)

lemma intervals_scheduleAll:
  "playbackIntervals (effects (scheduleAll chunks st))
   = playbackIntervals (effects st) @ plan (nextStartTimeRef st) chunks"
proof (induction chunks arbitrary: st)
  case Nil
  show ?case by simp
next
  case (Cons c chunks)
  obtain now b where c: "c = (now, b)" by (cases c)
  show ?case
    by (simp add: c Cons.IH scheduleNext_effects scheduleNext_floor playbackIntervals_append)
qed

lemma scheduledIntervals_plan: "scheduledIntervals chunks st = plan (nextStartTimeRef st) chunks"
  by (simp add: scheduledIntervals_def intervals_scheduleAll)

lemma length_plan: "length (plan t0 chunks) = length chunks"
  by (induction t0 chunks rule: plan.induct) simp_all

lemma plan_after_floor: "iv \<in> set (plan t0 chunks) \<Longrightarrow> t0 \<le> fst iv \<and> fst iv \<le> snd iv"
proof (induction t0 chunks rule: plan.induct)
  case (1 t0)
  then show ?case by simp
next
  case (2 t0 now b rest)
  have d: "0 \<le> duration b" by (rule duration_nonneg)
  from "2.prems" consider "iv = (max t0 now, max t0 now + duration b)"
    | "iv \<in> set (plan (max t0 now + duration b) rest)" by auto
  then show ?case
  proof cases
    case 1
    with d show ?thesis by simp
  next
    case 2
    have "t0 \<le> max t0 now" by simp
    with "2.IH" [OF 2] d show ?thesis by linarith
  qed
qed

lemma plan_disjoint: "sorted_wrt (\<lambda>a b. snd a \<le> fst b) (plan t0 chunks)"
proof (induction t0 chunks rule: plan.induct)
  case (1 t0)
  show ?case by simp
next
  case (2 t0 now b rest)
  have "\<forall>iv\<in>set (plan (max t0 now + duration b) rest). max t0 now + duration b \<le> fst iv"
    using plan_after_floor by blast
  with "2.IH" show ?case by simp
qed

lemma plan_sorted: "sorted (map fst (plan t0 chunks))"
proof (induction t0 chunks rule: plan.induct)
  case (1 t0)
  show ?case by simp
next
  case (2 t0 now b rest)
  have d: "0 \<le> duration b" by (rule duration_nonneg)
  have "\<forall>iv\<in>set (plan (max t0 now + duration b) rest). max t0 now + duration b \<le> fst iv"
    using plan_after_floor by blast
  with d have "\<forall>iv\<in>set (plan (max t0 now + duration b) rest). max t0 now \<le> fst iv"
    by force
  with "2.IH" show ?case by simp
qed

lemma plan_nth:
  "i < length chunks \<Longrightarrow>
     fst (chunks ! i) \<le> fst (plan t0 chunks ! i)
     \<and> snd (plan t0 chunks ! i) = fst (plan t0 chunks ! i) + duration (snd (chunks ! i))"
proof (induction t0 chunks arbitrary: i rule: plan.induct)
  case (1 t0)
  then show ?case by simp
next
  case (2 t0 now b rest)
  show ?case
  proof (cases i)
    case 0
    then show ?thesis by simp
  next
    case (Suc j)
    with "2.prems" have "j < length rest" by simp
    from "2.IH" [OF this] Suc show ?thesis by simp
  qed
qed

text \<open>
  C3. Let any sequence of buffers be scheduled, each at its own clock reading, from any
  state (any floor, any active set). Every buffer gets one playback interval, from its start
  to its start plus its duration, and its start is not before its clock reading; the start
  times are non-decreasing; and of any two buffers the earlier one ends no later than the
  later one starts, so no two intervals overlap. Nothing is assumed of the clock readings
  (they need not even increase) or of the buffers (a duration is a frame count over a
  sample rate, hence not negative).
\<close>

theorem playback_intervals_ordered:
  "length (scheduledIntervals chunks st) = length chunks
   \<and> sorted (map fst (scheduledIntervals chunks st))
   \<and> (\<forall>i j. i < j \<and> j < length chunks \<longrightarrow>
         snd (scheduledIntervals chunks st ! i) \<le> fst (scheduledIntervals chunks st ! j))
   \<and> (\<forall>i<length chunks.
         fst (chunks ! i) \<le> fst (scheduledIntervals chunks st ! i)
         \<and> snd (scheduledIntervals chunks st ! i)
             = fst (scheduledIntervals chunks st ! i) + duration (snd (chunks ! i)))"
proof -
  let ?ivs = "plan (nextStartTimeRef st) chunks"
  have "\<forall>i j. i < j \<and> j < length chunks \<longrightarrow> snd (?ivs ! i) \<le> fst (?ivs ! j)"
    using plan_disjoint [of "nextStartTimeRef st" chunks]
    by (simp add: sorted_wrt_iff_nth_less length_plan)
  then show ?thesis
    by (simp add: scheduledIntervals_plan length_plan plan_sorted plan_nth)
qed

text \<open>
  Three buffers of one second that arrive while the clock reads 0 are scheduled at 0, 1
  and 2.
\<close>

theorem playback_intervals_ordered_witness:
  "scheduledIntervals [(0, oneSecond), (0, oneSecond), (0, oneSecond)] initialState
     = [(0, 1), (1, 2), (2, 3)]
   \<and> sorted (map fst (scheduledIntervals [(0, oneSecond), (0, oneSecond), (0, oneSecond)]
                         initialState))
   \<and> snd (scheduledIntervals [(0, oneSecond), (0, oneSecond), (0, oneSecond)] initialState ! 0)
       \<le> fst (scheduledIntervals [(0, oneSecond), (0, oneSecond), (0, oneSecond)] initialState ! 2)"
proof -
  let ?chunks = "[(0, oneSecond), (0, oneSecond), (0 :: real, oneSecond)]"
  note inst = playback_intervals_ordered [of ?chunks initialState]
  have "scheduledIntervals ?chunks initialState = [(0, 1), (1, 2), (2, 3)]"
    by (simp add: scheduledIntervals_def scheduleNext_def startSource_def raiseFloor_def Let_def
        initialState_def oneSecond_def duration_def)
  moreover from inst have "sorted (map fst (scheduledIntervals ?chunks initialState))" by blast
  moreover have "snd (scheduledIntervals ?chunks initialState ! 0)
       \<le> fst (scheduledIntervals ?chunks initialState ! 2)"
  proof -
    from inst have "\<forall>i j. i < j \<and> j < length ?chunks \<longrightarrow>
         snd (scheduledIntervals ?chunks initialState ! i)
           \<le> fst (scheduledIntervals ?chunks initialState ! j)"
      by blast
    then have "0 < (2 :: nat) \<and> 2 < length ?chunks \<longrightarrow>
         snd (scheduledIntervals ?chunks initialState ! 0)
           \<le> fst (scheduledIntervals ?chunks initialState ! 2)"
      by blast
    then show ?thesis by simp
  qed
  ultimately show ?thesis by blast
qed

section \<open>Interruption\<close>

lemma interrupt_fields:
  "sourcesRef (interrupt st) = []"
  "nextStartTimeRef (interrupt st) = 0"
  "currentInputTranscription (interrupt st) = []"
  "currentOutputTranscription (interrupt st) = []"
  "transcriptionHistory (interrupt st) = transcriptionHistory st"
  "effects (interrupt st) = effects st @ map SourceStop (sourcesRef st)"
  "nextSourceId (interrupt st) = nextSourceId st"
  by (simp_all add: interrupt_def Let_def)

lemma appendTranscription_fields:
  "transcriptionHistory (appendTranscription m st) = transcriptionHistory st"
  "sourcesRef (appendTranscription m st) = sourcesRef st"
  "effects (appendTranscription m st) = effects st"
  by (simp_all add: appendTranscription_def split: option.splits)

lemma startSource_fields:
  "transcriptionHistory (startSource b st) = transcriptionHistory st"
  "sourcesRef (startSource b st)
     = sourcesRef st @ [\<lparr>sourceId = nextSourceId st, sourceBuffer = b\<rparr>]"
  by (simp_all add: startSource_def Let_def)

lemma raiseFloor_fields:
  "transcriptionHistory (raiseFloor now st) = transcriptionHistory st"
  "sourcesRef (raiseFloor now st) = sourcesRef st"
  "nextSourceId (raiseFloor now st) = nextSourceId st"
  by (simp_all add: raiseFloor_def)

lemma playAudio_keeps:
  assumes "playAudio k now d st = (r, st')"
  shows "transcriptionHistory st' = transcriptionHistory st"
    and "set (sourcesRef st) \<subseteq> set (sourcesRef st')"
  using assms
  by (auto simp add: playAudio_def Let_def startSource_fields raiseFloor_fields
      split: option.splits sum.splits if_splits)

lemma onmessage_interrupted:
  "onmessage k callbacks now interruptedMessage st = (None, interrupt st)"
  by (simp add: onmessage_def interruptedMessage_def emptyMessage_def appendTranscription_def
      audioData_def playAudio_None Let_def)

lemma playing_eq:
  "playing = midTurn\<lparr>nextSourceId := 1,
     effects := [WireCapture 1, SourceStart \<lparr>sourceId = 0, sourceBuffer = oneSecond\<rparr> 0],
     nextStartTimeRef := 1,
     sourcesRef := [\<lparr>sourceId = 0, sourceBuffer = oneSecond\<rparr>]\<rparr>"
  by (simp add: playing_def scheduleNext_def startSource_def raiseFloor_def Let_def midTurn_eq
      openSession_eq initialState_def oneSecond_def duration_def)

text \<open>
  C6. Let a message with the \<open>interrupted\<close> flag and without \<open>turnComplete\<close> be
  handled to the end (no exception) in any state. Afterwards the active set is empty, the
  floor is zero, both running transcripts are empty and the history is the one before;
  \<open>stop\<close> has been called on every source that was in the active set; and a buffer
  scheduled next, at a clock reading \<open>now'\<close> (a clock is never negative), starts at
  \<open>now'\<close>. A message that carries only the flag is always handled to the end.
\<close>

theorem interrupted_discards_turn:
  assumes "interrupted m" and "\<not> turnComplete m"
    and "onmessage k callbacks now m st = (None, st')"
    and "0 \<le> now'"
  shows "sourcesRef st' = [] \<and> nextStartTimeRef st' = 0
    \<and> currentInputTranscription st' = [] \<and> currentOutputTranscription st' = []
    \<and> transcriptionHistory st' = transcriptionHistory st
    \<and> (\<forall>source\<in>set (sourcesRef st). SourceStop source \<in> set (effects st'))
    \<and> effects (scheduleNext now' audioBuffer st')
        = effects st' @ [SourceStart \<lparr>sourceId = nextSourceId st', sourceBuffer = audioBuffer\<rparr> now']
    \<and> onmessage k callbacks now interruptedMessage st = (None, interrupt st)"
proof -
  let ?st1 = "appendTranscription m st"
  from assms(2,3) obtain d st3 where
    play: "playAudio k now d ?st1 = (None, st3)" and st': "st' = interrupt st3"
    using assms(1)
    by (auto simp add: onmessage_def Let_def split: sum.splits prod.splits option.splits)
  from playAudio_keeps [OF play]
  have hist: "transcriptionHistory st3 = transcriptionHistory st"
    and srcs: "set (sourcesRef st) \<subseteq> set (sourcesRef st3)"
    by (simp_all add: appendTranscription_fields)
  have stops: "\<forall>source\<in>set (sourcesRef st). SourceStop source \<in> set (effects st')"
    using srcs by (auto simp add: st' interrupt_fields)
  have resumes: "effects (scheduleNext now' audioBuffer st')
        = effects st' @ [SourceStart \<lparr>sourceId = nextSourceId st', sourceBuffer = audioBuffer\<rparr> now']"
    using assms(4) by (simp add: scheduleNext_effects st' interrupt_fields)
  show ?thesis
    using hist stops resumes by (simp add: st' interrupt_fields onmessage_interrupted)
qed

text \<open>
  The scenario: \<open>interrupted\<close> arrives while the buffer of one second is in the active
  set (floor 1) and the running transcripts are \<open>hello\<close> and \<open>hi there\<close>; the next
  buffer, arriving at clock 5, starts at 5.
\<close>

theorem interrupted_discards_turn_witness:
  "sourcesRef playing = [\<lparr>sourceId = 0, sourceBuffer = oneSecond\<rparr>]
   \<and> currentInputTranscription playing = ''hello''
   \<and> currentOutputTranscription playing = ''hi there''
   \<and> nextStartTimeRef playing = 1
   \<and> sourcesRef (interrupt playing) = [] \<and> nextStartTimeRef (interrupt playing) = 0
   \<and> currentInputTranscription (interrupt playing) = []
   \<and> currentOutputTranscription (interrupt playing) = []
   \<and> transcriptionHistory (interrupt playing) = transcriptionHistory playing
   \<and> SourceStop \<lparr>sourceId = 0, sourceBuffer = oneSecond\<rparr> \<in> set (effects (interrupt playing))
   \<and> effects (scheduleNext 5 oneSecond (interrupt playing))
        = effects (interrupt playing) @ [SourceStart \<lparr>sourceId = 1, sourceBuffer = oneSecond\<rparr> 5]"
proof -
  have run: "onmessage exampleConstants (fst openSession) (1/2) interruptedMessage playing
      = (None, interrupt playing)"
    by (rule onmessage_interrupted)
  have "interrupted interruptedMessage" "\<not> turnComplete interruptedMessage"
    by (simp_all add: interruptedMessage_def emptyMessage_def)
  from interrupted_discards_turn [OF this run, of 5 oneSecond]
  show ?thesis
    by (simp add: playing_eq midTurn_eq interrupt_fields)
qed

section \<open>Video generation\<close>

lemma pollUntilDone_done:
  "opDone operation \<Longrightarrow> pollUntilDone waiting operation answers trace = Some (Inr operation, trace)"
  by (cases answers) simp_all

lemma pollUntilDone_pending:
  assumes "\<forall>op\<in>set (butlast (operation # polled)). \<not> opDone op"
    and "opDone (last (operation # polled))"
  shows "pollUntilDone waiting operation (map Inr polled @ rest) trace
    = Some (Inr (last (operation # polled)),
            trace @ concat (map (pollEffects waiting) (butlast (operation # polled))))"
  using assms
proof (induction polled arbitrary: operation trace)
  case Nil
  then show ?case by (simp add: pollUntilDone_done)
next
  case (Cons p polled)
  from Cons.prems have pending: "\<not> opDone operation"
    and rest: "\<forall>op\<in>set (butlast (p # polled)). \<not> opDone op" "opDone (last (p # polled))"
    by (simp_all split: if_splits)
  show ?case
    using pending Cons.IH [OF rest]
    by (simp add: pollEffects_def Let_def)
qed

lemma generateCalls_append: "generateCalls (es @ es') = generateCalls es + generateCalls es'"
  by (induction es rule: generateCalls.induct) simp_all

lemma generateCalls_polls: "generateCalls (concat (map (pollEffects waiting) ops)) = 0"
  by (induction ops) (simp_all add: generateCalls_append pollEffects_def)

lemma generateCalls_no_repeats: "filter repeats es = [] \<Longrightarrow> generateCalls es = 0"
  by (induction es rule: generateCalls.induct) (simp_all split: if_splits)

lemma fetchVideo_no_link:
  "videoUri operation = None \<or> videoUri operation = Some [] \<Longrightarrow>
   fetchVideo w key completeMessage operation trace
     = (Inl (Error ''No video download link found.''), trace)"
  by (auto simp add: fetchVideo_def)

lemma fetchVideo_appends:
  "\<exists>tail. fetchVideo w key completeMessage operation trace
            = (fst (fetchVideo w key completeMessage operation trace), trace @ tail)
          \<and> filter repeats tail = []"
  by (simp add: fetchVideo_def Let_def split: option.splits sum.splits)

lemma rethrow_appends:
  "\<exists>tail. rethrow label (r, trace) = (r, trace @ tail) \<and> filter repeats tail = []"
  by (cases r) (simp_all add: rethrow_def)

lemma finish_appends:
  "\<exists>outcome tail.
      rethrow label (fetchVideo w key completeMessage operation trace) = (outcome, trace @ tail)
    \<and> filter repeats tail = []
    \<and> (videoUri operation = None \<or> videoUri operation = Some [] \<longrightarrow>
         outcome = Inl (Error ''No video download link found.'')
         \<and> tail = [ConsoleError label (Error ''No video download link found.'')])"
proof -
  obtain t1 where f: "fetchVideo w key completeMessage operation trace
            = (fst (fetchVideo w key completeMessage operation trace), trace @ t1)"
    and t1: "filter repeats t1 = []"
    using fetchVideo_appends by blast
  let ?r = "fst (fetchVideo w key completeMessage operation trace)"
  obtain t2 where r: "rethrow label (?r, trace @ t1) = (?r, (trace @ t1) @ t2)"
    and t2: "filter repeats t2 = []"
    using rethrow_appends by blast
  have run: "rethrow label (fetchVideo w key completeMessage operation trace)
      = (?r, trace @ (t1 @ t2))"
    using f r by simp
  show ?thesis
  proof (cases "videoUri operation = None \<or> videoUri operation = Some []")
    case True
    then have "rethrow label (fetchVideo w key completeMessage operation trace)
      = (Inl (Error ''No video download link found.''),
         trace @ [ConsoleError label (Error ''No video download link found.'')])"
      by (simp add: fetchVideo_no_link rethrow_def)
    then show ?thesis by simp
  next
    case False
    with run t1 t2 show ?thesis by auto
  qed
qed

lemma finish_appends_polls:
  "\<exists>outcome tail.
      rethrow label (fetchVideo w key completeMessage operation
                       ([Progress initial, GenerateVideos request] @ concat (map (pollEffects waiting) ops)))
        = (outcome, [Progress initial, GenerateVideos request] @ concat (map (pollEffects waiting) ops) @ tail)
    \<and> filter repeats tail = []
    \<and> generateCalls
          ([Progress initial, GenerateVideos request] @ concat (map (pollEffects waiting) ops) @ tail)
        = 1
    \<and> (videoUri operation = None \<or> videoUri operation = Some [] \<longrightarrow>
         outcome = Inl (Error ''No video download link found.'')
         \<and> tail = [ConsoleError label (Error ''No video download link found.'')])"
proof -
  let ?start = "[Progress initial, GenerateVideos request]"
  let ?polls = "concat (map (pollEffects waiting) ops)"
  from finish_appends [of label w key completeMessage operation "?start @ ?polls"]
  obtain outcome tail where
    run: "rethrow label (fetchVideo w key completeMessage operation (?start @ ?polls))
        = (outcome, (?start @ ?polls) @ tail)"
    and quiet: "filter repeats tail = []"
    and link: "videoUri operation = None \<or> videoUri operation = Some [] \<longrightarrow>
         outcome = Inl (Error ''No video download link found.'')
         \<and> tail = [ConsoleError label (Error ''No video download link found.'')]"
    by blast
  have "generateCalls (?start @ ?polls @ tail) = 1"
    using quiet
    by (simp add: generateCalls_append generateCalls_polls generateCalls_no_repeats)
  with run quiet link show ?thesis
    by (intro exI [of _ outcome] exI [of _ tail]) (simp only: append_assoc simp_thms)
qed

text \<open>
  C9. Let the API key be set, let \<open>generateVideos\<close> return an operation, and let the
  operations observed (that one, then the answers of the polls) be not done up to the first
  one that is. Then each of the two functions returns, and its effects are, in this order:
  the first progress message and the one call of \<open>generateVideos\<close>; for every operation
  observed before the one that is done, a progress message, a wait of 10000 milliseconds and
  one poll; and a tail without any wait, poll or call of \<open>generateVideos\<close>, so that
  \<open>generateVideos\<close> is called exactly once. If the
  operation that is done has no download link (none, or an empty one), the function raises
  \<open>Error("No video download link found.")\<close> and the tail is only the log of that
  exception: nothing is fetched and nothing is tried again.
\<close>

theorem video_polling:
  assumes "API_KEY w = Some key" and "key \<noteq> []"
    and "generateVideosResult w = Inr operation"
    and "pollResults w = map Inr polled @ rest"
    and "\<forall>op\<in>set (butlast (operation # polled)). \<not> opDone op"
    and "opDone (last (operation # polled))"
  shows "(\<exists>outcome tail.
      generateVideoFromText w prompt aspectRatio resolution
        = Some (outcome,
                [Progress ''Initiating video generation...'',
                 GenerateVideos \<lparr>requestModel = ''veo-3.1-fast-generate-preview'',
                                 requestPrompt = prompt, requestImage = None,
                                 numberOfVideos = 1, requestResolution = resolution,
                                 requestAspectRatio = aspectRatio\<rparr>]
                @ concat (map (pollEffects
                     ''Video generation in progress... Waiting for 10 seconds. Status: '')
                     (butlast (operation # polled)))
                @ tail)
      \<and> filter repeats tail = []
      \<and> generateCalls
            ([Progress ''Initiating video generation...'',
              GenerateVideos \<lparr>requestModel = ''veo-3.1-fast-generate-preview'',
                              requestPrompt = prompt, requestImage = None,
                              numberOfVideos = 1, requestResolution = resolution,
                              requestAspectRatio = aspectRatio\<rparr>]
             @ concat (map (pollEffects
                  ''Video generation in progress... Waiting for 10 seconds. Status: '')
                  (butlast (operation # polled)))
             @ tail) = 1
      \<and> (videoUri (last (operation # polled)) = None
           \<or> videoUri (last (operation # polled)) = Some [] \<longrightarrow>
             outcome = Inl (Error ''No video download link found.'')
             \<and> tail = [ConsoleError ''Error generating video:''
                          (Error ''No video download link found.'')]))
    \<and> (\<exists>outcome tail.
      generateVideoFromImage w prompt imageBytes imageMimeType aspectRatio resolution
        = Some (outcome,
                [Progress ''Initiating video generation from image...'',
                 GenerateVideos \<lparr>requestModel = ''veo-3.1-fast-generate-preview'',
                                 requestPrompt = prompt,
                                 requestImage = Some (imageBytes, imageMimeType),
                                 numberOfVideos = 1, requestResolution = resolution,
                                 requestAspectRatio = aspectRatio\<rparr>]
                @ concat (map (pollEffects
                     ''Video generation from image in progress... Waiting for 10 seconds. Status: '')
                     (butlast (operation # polled)))
                @ tail)
      \<and> filter repeats tail = []
      \<and> generateCalls
            ([Progress ''Initiating video generation from image...'',
              GenerateVideos \<lparr>requestModel = ''veo-3.1-fast-generate-preview'',
                              requestPrompt = prompt,
                              requestImage = Some (imageBytes, imageMimeType),
                              numberOfVideos = 1, requestResolution = resolution,
                              requestAspectRatio = aspectRatio\<rparr>]
             @ concat (map (pollEffects
                  ''Video generation from image in progress... Waiting for 10 seconds. Status: '')
                  (butlast (operation # polled)))
             @ tail) = 1
      \<and> (videoUri (last (operation # polled)) = None
           \<or> videoUri (last (operation # polled)) = Some [] \<longrightarrow>
             outcome = Inl (Error ''No video download link found.'')
             \<and> tail = [ConsoleError ''Error generating video from image:''
                          (Error ''No video download link found.'')]))"
proof -
  have key: "getAiInstance w = Inr key"
    using assms(1,2) by (simp add: getAiInstance_def)
  note poll = pollUntilDone_pending [OF assms(5,6), of _ rest]
  have fromText: "generateVideoFromText w prompt aspectRatio resolution
    = Some (rethrow ''Error generating video:''
        (fetchVideo w key ''Video generation complete. Fetching video...''
           (last (operation # polled))
           ([Progress ''Initiating video generation...'',
             GenerateVideos \<lparr>requestModel = ''veo-3.1-fast-generate-preview'',
                             requestPrompt = prompt, requestImage = None,
                             numberOfVideos = 1, requestResolution = resolution,
                             requestAspectRatio = aspectRatio\<rparr>]
            @ concat (map (pollEffects
                 ''Video generation in progress... Waiting for 10 seconds. Status: '')
                 (butlast (operation # polled))))))"
    by (simp add: generateVideoFromText_def key assms(3,4) poll Let_def
        del: last.simps butlast.simps)
  have fromImage: "generateVideoFromImage w prompt imageBytes imageMimeType aspectRatio resolution
    = Some (rethrow ''Error generating video from image:''
        (fetchVideo w key ''Video generation from image complete. Fetching video...''
           (last (operation # polled))
           ([Progress ''Initiating video generation from image...'',
             GenerateVideos \<lparr>requestModel = ''veo-3.1-fast-generate-preview'',
                             requestPrompt = prompt,
                             requestImage = Some (imageBytes, imageMimeType),
                             numberOfVideos = 1, requestResolution = resolution,
                             requestAspectRatio = aspectRatio\<rparr>]
            @ concat (map (pollEffects
                 ''Video generation from image in progress... Waiting for 10 seconds. Status: '')
                 (butlast (operation # polled))))))"
    by (simp add: generateVideoFromImage_def key assms(3,4) poll Let_def
        del: last.simps butlast.simps)
  show ?thesis
    unfolding fromText fromImage option.inject
    by (intro conjI finish_appends_polls)
qed

text \<open>
  The job of \<open>exampleWorld\<close>: pending at creation (state RUNNING), pending at the first
  poll (no state), done without a link at the second; a third answer is never asked for.
\<close>

theorem video_polling_witness:
  "generateVideoFromText exampleWorld ''a cat'' Ratio_16_9 Res_720p
     = Some (Inl (Error ''No video download link found.''),
             [Progress ''Initiating video generation...'',
              GenerateVideos \<lparr>requestModel = ''veo-3.1-fast-generate-preview'',
                              requestPrompt = ''a cat'', requestImage = None,
                              numberOfVideos = 1, requestResolution = Res_720p,
                              requestAspectRatio = Ratio_16_9\<rparr>,
              Progress ''Video generation in progress... Waiting for 10 seconds. Status: RUNNING'',
              Wait 10000,
              GetVideosOperation pendingOperation,
              Progress ''Video generation in progress... Waiting for 10 seconds. Status: UNKNOWN'',
              Wait 10000,
              GetVideosOperation (pendingOperation\<lparr>metadataState := None\<rparr>),
              ConsoleError ''Error generating video:'' (Error ''No video download link found.'')])"
proof -
  have "pollResults exampleWorld
      = map Inr [pendingOperation\<lparr>metadataState := None\<rparr>, doneWithoutLink]
        @ [Inr pendingOperation]"
    by (simp add: exampleWorld_def)
  from video_polling [of exampleWorld "''key''" pendingOperation, OF _ _ _ this,
      of "''a cat''" Ratio_16_9 Res_720p]
  show ?thesis
    by (auto simp add: exampleWorld_def pendingOperation_def doneWithoutLink_def pollEffects_def)
qed

end
